theory Spec2Isabelle
  imports Complex_Main "HOL-Library.Sublist"
begin

section \<open>Strings\<close>

text \<open>
  A string is a list of characters. The three tests the code uses are \<open>includes\<close>
  (a contiguous substring), \<open>startsWith\<close> and \<open>endsWith\<close>; \<open>includes\<close> is a
  reserved word of Isabelle, so that one is called \<open>str_includes\<close>.

  \<open>toLowerCase\<close> lowers the letters A to Z and keeps every other character. The only
  characters outside ASCII that JavaScript lowers to an ASCII letter are U+212A (to k)
  and U+0130 (to i followed by a combining mark); no pattern or key that a lower-cased
  string is compared with here contains k or i, so the tests below give what the code
  gives on every string.
\<close>

definition toLowerChar :: "char \<Rightarrow> char" where
  "toLowerChar c =
     (case map_of (zip ''ABCDEFGHIJKLMNOPQRSTUVWXYZ'' ''abcdefghijklmnopqrstuvwxyz'') c of
        Some d \<Rightarrow> d
      | None \<Rightarrow> c)"

definition toLowerCase :: "string \<Rightarrow> string" where
  "toLowerCase s = map toLowerChar s"

definition str_includes :: "string \<Rightarrow> string \<Rightarrow> bool" where
  "str_includes s p = sublist p s"

definition startsWith :: "string \<Rightarrow> string \<Rightarrow> bool" where
  "startsWith s p = prefix p s"

definition endsWith :: "string \<Rightarrow> string \<Rightarrow> bool" where
  "endsWith s p = suffix p s"


section \<open>Connection configuration and providers\<close>

text \<open>
  Modelled from the spec: the declarations of \<open>ContentGeneratorConfig\<close> and of
  \<open>Config\<close> (the CLI configuration) are in files that are not among the sources.
  The configuration has the fields of the specification's \<open>ConnectionConfig\<close>,
  every one optional; these are the fields the providers read. Of the CLI
  configuration only the two getters the code calls are kept.
\<close>

record config =
  baseUrl :: "string option"
  apiKey :: "string option"
  model :: "string option"
  timeout :: "nat option"
  maxRetries :: "nat option"

record cliConfig =
  getCliVersion :: "string option"
  getContentGeneratorConfig :: config

text \<open>
  One constructor per provider class; \<open>new OllamaProvider(contentGeneratorConfig, cliConfig)\<close>
  is the constructor applied to its two arguments. \<open>determineProvider\<close> tests its first
  argument for falsiness, so that argument is optional here: \<open>None\<close> is \<open>undefined\<close>.
\<close>

datatype provider =
    OllamaProvider "config option" cliConfig
  | VllmProvider "config option" cliConfig
  | DashScopeOpenAICompatibleProvider "config option" cliConfig
  | DeepSeekOpenAICompatibleProvider "config option" cliConfig
  | OpenRouterOpenAICompatibleProvider "config option" cliConfig
  | ModelScopeOpenAICompatibleProvider "config option" cliConfig
  | DefaultOpenAICompatibleProvider "config option" cliConfig

text \<open>
  The detection predicates of the four cloud providers are static methods of classes
  defined in other files. They are parameters of the resolver: pure predicates on the
  configuration, as their declared type \<open>boolean\<close> says.
\<close>

record cloudDetection =
  isDashScopeProvider :: "config \<Rightarrow> bool"
  isDeepSeekProvider :: "config \<Rightarrow> bool"
  isOpenRouterProvider :: "config \<Rightarrow> bool"
  isModelScopeProvider :: "config \<Rightarrow> bool"

text \<open>
  \<open>OllamaProvider.isOllamaProvider\<close>. \<open>baseUrl?.toLowerCase() || ''\<close> is the empty
  string for a missing base URL, and \<open>model || ''\<close> for a missing model.
\<close>

definition isOllamaProvider :: "config \<Rightarrow> bool" where
  "isOllamaProvider contentGeneratorConfig =
     (let url = (case config.baseUrl contentGeneratorConfig of
                   Some u \<Rightarrow> toLowerCase u
                 | None \<Rightarrow> '''')
      in if str_includes url ''localhost:11434'' \<or> str_includes url ''127.0.0.1:11434''
         then True
         else
           (let m = (case config.model contentGeneratorConfig of
                       Some s \<Rightarrow> s
                     | None \<Rightarrow> '''')
            in if str_includes m '':'' \<and> startsWith m ''qwen'' then True else False))"

text \<open>\<open>VllmProvider.isVllmProvider\<close>.\<close>

definition isVllmProvider :: "config \<Rightarrow> bool" where
  "isVllmProvider contentGeneratorConfig =
     (let url = (case config.baseUrl contentGeneratorConfig of
                   Some u \<Rightarrow> toLowerCase u
                 | None \<Rightarrow> '''')
      in if str_includes url ''localhost:8000'' \<or> str_includes url ''127.0.0.1:8000''
         then True
         else False)"

text \<open>
  \<open>determineProvider\<close>: the configuration tested is the first argument, or the CLI's
  own when the first argument is missing; the provider is built from the arguments as
  they were passed.
\<close>

definition determineProvider :: "cloudDetection \<Rightarrow> config option \<Rightarrow> cliConfig \<Rightarrow> provider" where
  "determineProvider cloud contentGeneratorConfig cli =
     (let cfg = (case contentGeneratorConfig of
                   Some c \<Rightarrow> c
                 | None \<Rightarrow> getContentGeneratorConfig cli)
      in if isOllamaProvider cfg then OllamaProvider contentGeneratorConfig cli
         else if isVllmProvider cfg then VllmProvider contentGeneratorConfig cli
         else if isDashScopeProvider cloud cfg
           then DashScopeOpenAICompatibleProvider contentGeneratorConfig cli
         else if isDeepSeekProvider cloud cfg
           then DeepSeekOpenAICompatibleProvider contentGeneratorConfig cli
         else if isOpenRouterProvider cloud cfg
           then OpenRouterOpenAICompatibleProvider contentGeneratorConfig cli
         else if isModelScopeProvider cloud cfg
           then ModelScopeOpenAICompatibleProvider contentGeneratorConfig cli
         else DefaultOpenAICompatibleProvider contentGeneratorConfig cli)"

text \<open>
  The specification's view of resolution: a closed set of variants, and an ordered list
  of (variant, predicate) pairs of which the first whose predicate holds is taken.
\<close>

datatype providerVariant = Ollama | Vllm | DashScope | DeepSeek | OpenRouter | ModelScope | Default

fun variantOf :: "provider \<Rightarrow> providerVariant" where
  "variantOf (OllamaProvider _ _) = Ollama"
| "variantOf (VllmProvider _ _) = Vllm"
| "variantOf (DashScopeOpenAICompatibleProvider _ _) = DashScope"
| "variantOf (DeepSeekOpenAICompatibleProvider _ _) = DeepSeek"
| "variantOf (OpenRouterOpenAICompatibleProvider _ _) = OpenRouter"
| "variantOf (ModelScopeOpenAICompatibleProvider _ _) = ModelScope"
| "variantOf (DefaultOpenAICompatibleProvider _ _) = Default"

definition priorityOrder :: "cloudDetection \<Rightarrow> (providerVariant \<times> (config \<Rightarrow> bool)) list" where
  "priorityOrder cloud =
     [(Ollama, isOllamaProvider),
      (Vllm, isVllmProvider),
      (DashScope, isDashScopeProvider cloud),
      (DeepSeek, isDeepSeekProvider cloud),
      (OpenRouter, isOpenRouterProvider cloud),
      (ModelScope, isModelScopeProvider cloud),
      (Default, \<lambda>_. True)]"

definition firstMatch :: "(providerVariant \<times> (config \<Rightarrow> bool)) list \<Rightarrow> config \<Rightarrow> providerVariant option" where
  "firstMatch order c = map_option fst (find (\<lambda>(v, p). p c) order)"


section \<open>Requests\<close>

text \<open>
  JSON values, as a request carries them and as \<open>response.json()\<close> returns them.
  The properties of an object are listed with each key once.
\<close>

datatype jsonValue =
    JNull
  | JBool bool
  | JNumber rat
  | JString string
  | JArray "jsonValue list"
  | JObject "(string \<times> jsonValue) list"

text \<open>
  A field of a request holds a JSON value. One more kind of value can reach the
  \<open>model\<close> field of a built request: \<open>modelMap\<close> is a plain object literal, so
  indexing it finds, after its own six keys, the properties every object inherits from
  \<open>Object.prototype\<close>, which are functions or objects and not strings.
  \<open>Inherited k\<close> is the inherited property named \<open>k\<close>.
\<close>

datatype fieldValue = Json jsonValue | Inherited string

type_synonym request = "string \<rightharpoonup> fieldValue"

text \<open>
  What a \<open>throw\<close> carries: an \<open>Error\<close> with its message, a value that is not an
  \<open>Error\<close> (with the text \<open>String\<close> gives for it), or a \<open>TypeError\<close> raised by the
  engine at the named operation, whose message is the engine's.
\<close>

datatype jsThrown = JsError string | JsNonError string | TypeError string

definition DEFAULT_OLLAMA_BASE_URL :: string where
  "DEFAULT_OLLAMA_BASE_URL = ''http://localhost:11434/v1''"

definition DEFAULT_OLLAMA_MODEL :: string where
  "DEFAULT_OLLAMA_MODEL = ''qwen3-coder:14b''"

definition DEFAULT_VLLM_BASE_URL :: string where
  "DEFAULT_VLLM_BASE_URL = ''http://localhost:8000/v1''"

definition modelMap :: "(string \<times> string) list" where
  "modelMap =
     [(''coder-model'', DEFAULT_OLLAMA_MODEL),
      (''qwen3-coder'', ''qwen3-coder:14b''),
      (''qwen3-coder-7b'', ''qwen3-coder:7b''),
      (''qwen3-coder-14b'', ''qwen3-coder:14b''),
      (''qwen3-coder-32b'', ''qwen3-coder:32b''),
      (''qwen3-coder-plus'', ''qwen3-coder:32b'')]"

definition objectPrototypeProperties :: "string list" where
  "objectPrototypeProperties =
     [''constructor'', ''__defineGetter__'', ''__defineSetter__'', ''hasOwnProperty'',
      ''__lookupGetter__'', ''__lookupSetter__'', ''isPrototypeOf'',
      ''propertyIsEnumerable'', ''toString'', ''valueOf'', ''__proto__'',
      ''toLocaleString'']"

text \<open>
  \<open>obj[key]\<close> on an object literal whose own properties are strings: the own property,
  else the inherited one, else \<open>undefined\<close> (\<open>None\<close>).
\<close>

definition lookupProperty :: "(string \<times> string) list \<Rightarrow> string \<Rightarrow> fieldValue option" where
  "lookupProperty obj k =
     (case map_of obj k of
        Some v \<Rightarrow> Some (Json (JString v))
      | None \<Rightarrow> if k \<in> set objectPrototypeProperties then Some (Inherited k) else None)"

text \<open>Truthiness, for the left operand of \<open>||\<close>.\<close>

fun truthyJson :: "jsonValue \<Rightarrow> bool" where
  "truthyJson JNull = False"
| "truthyJson (JBool b) = b"
| "truthyJson (JNumber n) = (n \<noteq> 0)"
| "truthyJson (JString s) = (s \<noteq> [])"
| "truthyJson (JArray _) = True"
| "truthyJson (JObject _) = True"

fun truthy :: "fieldValue option \<Rightarrow> bool" where
  "truthy None = False"
| "truthy (Some (Json v)) = truthyJson v"
| "truthy (Some (Inherited _)) = True"

text \<open>\<open>OllamaProvider.mapModelName\<close>, on a string as its signature says.\<close>

definition mapModelName :: "string \<Rightarrow> fieldValue" where
  "mapModelName m =
     (if str_includes m '':'' then Json (JString m)
      else
        (case lookupProperty modelMap (toLowerCase m) of
           Some v \<Rightarrow> if truthy (Some v) then v else Json (JString DEFAULT_OLLAMA_MODEL)
         | None \<Rightarrow> Json (JString DEFAULT_OLLAMA_MODEL)))"

text \<open>
  \<open>OllamaProvider.buildRequest\<close>: the fields of the request are spread into a new
  object, then \<open>model\<close> and \<open>keep_alive\<close> are set. The declared type of a request
  makes \<open>model\<close> a string. For a request that breaks its type the calls inside
  \<open>mapModelName\<close> decide: an array has \<open>includes\<close> (so an array holding the string
  \<open>:\<close> is returned as it is) and no \<open>toLowerCase\<close>; every other value, and a missing
  field, has no \<open>includes\<close>.
\<close>

definition OllamaProvider_buildRequest :: "request \<Rightarrow> string \<Rightarrow> jsThrown + request" where
  "OllamaProvider_buildRequest request userPromptId =
     (case request ''model'' of
        Some (Json (JString m)) \<Rightarrow>
          Inr ((Map.empty ++ request)
                 (''model'' \<mapsto> mapModelName m, ''keep_alive'' \<mapsto> Json (JString ''5m'')))
      | Some (Json (JArray xs)) \<Rightarrow>
          if JString '':'' \<in> set xs
          then Inr ((Map.empty ++ request)
                      (''model'' \<mapsto> Json (JArray xs), ''keep_alive'' \<mapsto> Json (JString ''5m'')))
          else Inl (TypeError ''model.toLowerCase'')
      | _ \<Rightarrow> Inl (TypeError ''model.includes''))"

text \<open>\<open>VllmProvider.buildRequest\<close>: the fields of the request spread into a new object.\<close>

definition VllmProvider_buildRequest :: "request \<Rightarrow> string \<Rightarrow> request" where
  "VllmProvider_buildRequest request userPromptId = Map.empty ++ request"


section \<open>Probing a local server\<close>

text \<open>
  The network and the engine are the environment. \<open>fetch\<close> is given the calls made so
  far, the URL and the timeout in milliseconds of \<open>AbortSignal.timeout\<close>; it is
  rejected (by a network failure or by the timeout) or gives a response, whose
  \<open>json()\<close> is rejected or gives the parsed body. Every call is appended to a log, so
  that which endpoints were probed, in which order and with which timeout can be stated.
\<close>

record response =
  ok :: bool
  json :: "jsThrown + jsonValue"

type_synonym fetchCall = "string \<times> nat"

record environment =
  fetch :: "fetchCall list \<Rightarrow> string \<Rightarrow> nat \<Rightarrow> jsThrown + response"
  typeErrorMessage :: "string \<Rightarrow> string"

datatype serverType = ollama | vllm | custom

text \<open>
  The list of models of a result: the array a \<open>map\<close> call built, whose elements are
  the property read from each entry (\<open>None\<close> where the entry has no such property), or
  the \<open>models\<close> entry of the body as it is.
\<close>

datatype modelList = Listed "jsonValue option list" | Raw jsonValue

text \<open>
  \<open>ServerAvailability\<close>; its \<open>baseUrl\<close> field is \<open>serverBaseUrl\<close> here, the name
  being a field of the configuration already.
\<close>

record serverAvailability =
  isAvailable :: bool
  serverType :: "serverType option"
  serverBaseUrl :: "string option"
  models :: "modelList option"
  error :: "string option"

text \<open>
  \<open>v.k\<close> on a parsed body, for the property names read here (\<open>models\<close>, \<open>data\<close>,
  \<open>name\<close>, \<open>id\<close>), none of which a JSON value inherits: reading from \<open>null\<close> raises,
  an object gives its own property, any other value gives \<open>undefined\<close>.
\<close>

fun getProperty :: "jsonValue \<Rightarrow> string \<Rightarrow> jsThrown + jsonValue option" where
  "getProperty JNull k = Inl (TypeError (''null.'' @ k))"
| "getProperty (JObject kvs) k = Inr (map_of kvs k)"
| "getProperty _ k = Inr None"

text \<open>\<open>xs.map((m) => m.k)\<close>: the entries in order, stopping at the first that raises.\<close>

fun mapProperty :: "jsonValue list \<Rightarrow> string \<Rightarrow> jsThrown + jsonValue option list" where
  "mapProperty [] k = Inr []"
| "mapProperty (x # xs) k =
     (case getProperty x k of
        Inl e \<Rightarrow> Inl e
      | Inr v \<Rightarrow>
          (case mapProperty xs k of
             Inl e \<Rightarrow> Inl e
           | Inr vs \<Rightarrow> Inr (v # vs)))"

text \<open>
  \<open>v?.map((m) => m.k)\<close>: \<open>undefined\<close> for a missing or \<open>null\<close> value, the mapped
  array for an array; any other value has no \<open>map\<close>.
\<close>

fun optionalMap :: "jsonValue option \<Rightarrow> string \<Rightarrow> jsThrown + jsonValue option list option" where
  "optionalMap None k = Inr None"
| "optionalMap (Some JNull) k = Inr None"
| "optionalMap (Some (JArray xs)) k =
     (case mapProperty xs k of
        Inl e \<Rightarrow> Inl e
      | Inr vs \<Rightarrow> Inr (Some vs))"
| "optionalMap (Some _) k = Inl (TypeError ''map'')"

text \<open>\<open>data.models?.map((m) => m.name) || []\<close>; an array is truthy, also when empty.\<close>

definition ollamaModelNames :: "jsonValue \<Rightarrow> jsThrown + modelList" where
  "ollamaModelNames body =
     (case getProperty body ''models'' of
        Inl e \<Rightarrow> Inl e
      | Inr v \<Rightarrow>
          (case optionalMap v ''name'' of
             Inl e \<Rightarrow> Inl e
           | Inr (Some names) \<Rightarrow> Inr (Listed names)
           | Inr None \<Rightarrow> Inr (Listed [])))"

text \<open>\<open>data.data?.map((m) => m.id) || data.models || []\<close>.\<close>

definition openaiModelIds :: "jsonValue \<Rightarrow> jsThrown + modelList" where
  "openaiModelIds body =
     (case getProperty body ''data'' of
        Inl e \<Rightarrow> Inl e
      | Inr v \<Rightarrow>
          (case optionalMap v ''id'' of
             Inl e \<Rightarrow> Inl e
           | Inr (Some ids) \<Rightarrow> Inr (Listed ids)
           | Inr None \<Rightarrow>
               (case getProperty body ''models'' of
                  Inl e \<Rightarrow> Inl e
                | Inr (Some w) \<Rightarrow> if truthyJson w then Inr (Raw w) else Inr (Listed [])
                | Inr None \<Rightarrow> Inr (Listed []))))"

text \<open>
  \<open>baseUrl.replace(/\/v1\/?$/, '/api/tags')\<close>: the pattern matches at the end of the
  string only, so it replaces a final \<open>/v1/\<close> or \<open>/v1\<close> and leaves any other string.
\<close>

definition replaceV1Suffix :: "string \<Rightarrow> string" where
  "replaceV1Suffix s =
     (if endsWith s ''/v1/'' then take (length s - 4) s @ ''/api/tags''
      else if endsWith s ''/v1'' then take (length s - 3) s @ ''/api/tags''
      else s)"

text \<open>
  The body of the first \<open>try\<close> of \<open>checkLocalServerAvailability\<close>, after its
  \<open>fetch\<close>: \<open>Inr (Some r)\<close> when it returns \<open>r\<close>, \<open>Inr None\<close> when it ends without
  returning, \<open>Inl e\<close> when it throws.
\<close>

definition ollamaAttempt :: "string \<Rightarrow> jsThrown + response \<Rightarrow> jsThrown + serverAvailability option" where
  "ollamaAttempt url ollamaResponse =
     (case ollamaResponse of
        Inl e \<Rightarrow> Inl e
      | Inr r \<Rightarrow>
          if ok r then
            (case json r of
               Inl e \<Rightarrow> Inl e
             | Inr body \<Rightarrow>
                 (case ollamaModelNames body of
                    Inl e \<Rightarrow> Inl e
                  | Inr names \<Rightarrow>
                      Inr (Some \<lparr>isAvailable = True, serverType = Some ollama,
                                 serverBaseUrl = Some url, models = Some names,
                                 error = None\<rparr>)))
          else Inr None)"

text \<open>The body of the second \<open>try\<close>, after its \<open>fetch\<close>.\<close>

definition modelsAttempt :: "string \<Rightarrow> jsThrown + response \<Rightarrow> jsThrown + serverAvailability option" where
  "modelsAttempt url modelsResponse =
     (case modelsResponse of
        Inl e \<Rightarrow> Inl e
      | Inr r \<Rightarrow>
          if ok r then
            (case json r of
               Inl e \<Rightarrow> Inl e
             | Inr body \<Rightarrow>
                 (case openaiModelIds body of
                    Inl e \<Rightarrow> Inl e
                  | Inr ids \<Rightarrow>
                      Inr (Some \<lparr>isAvailable = True,
                                 serverType = Some (if str_includes url '':8000'' then vllm else custom),
                                 serverBaseUrl = Some url, models = Some ids,
                                 error = None\<rparr>)))
          else Inr None)"

text \<open>\<open>error instanceof Error ? error.message : String(error)\<close>.\<close>

fun errorText :: "environment \<Rightarrow> jsThrown \<Rightarrow> string" where
  "errorText env (JsError message) = message"
| "errorText env (JsNonError text) = text"
| "errorText env (TypeError operation) = typeErrorMessage env operation"

text \<open>
  \<open>checkLocalServerAvailability\<close>, with the log of calls passed through. The first
  \<open>catch\<close> swallows what the first block throws and goes on to the second block; the
  second \<open>catch\<close> turns what the second block throws into a negative result. The
  timeout is optional and 5000 when missing.
\<close>

definition checkLocalServerAvailability ::
  "environment \<Rightarrow> string \<Rightarrow> nat option \<Rightarrow> fetchCall list \<Rightarrow> serverAvailability \<times> fetchCall list" where
  "checkLocalServerAvailability env url tmo calls =
     (let ms = (case tmo of Some t \<Rightarrow> t | None \<Rightarrow> 5000);
          ollamaTagsUrl = replaceV1Suffix url;
          ollamaResponse = fetch env calls ollamaTagsUrl ms;
          calls1 = calls @ [(ollamaTagsUrl, ms)]
      in case ollamaAttempt url ollamaResponse of
           Inr (Some result) \<Rightarrow> (result, calls1)
         | _ \<Rightarrow>
             (let modelsUrl = (if endsWith url ''/v1'' then url @ ''/models''
                               else url @ ''/v1/models'');
                  modelsResponse = fetch env calls1 modelsUrl ms;
                  calls2 = calls1 @ [(modelsUrl, ms)]
              in case modelsAttempt url modelsResponse of
                   Inl e \<Rightarrow>
                     (\<lparr>isAvailable = False, serverType = None, serverBaseUrl = None,
                       models = None, error = Some (errorText env e)\<rparr>, calls2)
                 | Inr (Some result) \<Rightarrow> (result, calls2)
                 | Inr None \<Rightarrow>
                     (\<lparr>isAvailable = False, serverType = None, serverBaseUrl = None,
                       models = None,
                       error = Some ''No local model server found at the specified URL''\<rparr>,
                      calls2)))"

text \<open>\<open>autoDetectLocalServer\<close>: the \<open>for\<close> loop over the endpoints, then the function.\<close>

definition commonEndpoints :: "string list" where
  "commonEndpoints =
     [''http://localhost:11434/v1'',
      ''http://127.0.0.1:11434/v1'',
      ''http://localhost:8000/v1'',
      ''http://127.0.0.1:8000/v1'']"

fun autoDetectLoop ::
  "environment \<Rightarrow> string list \<Rightarrow> fetchCall list \<Rightarrow> serverAvailability option \<times> fetchCall list" where
  "autoDetectLoop env [] calls = (None, calls)"
| "autoDetectLoop env (endpoint # rest) calls =
     (case checkLocalServerAvailability env endpoint (Some 2000) calls of
        (result, calls') \<Rightarrow>
          if isAvailable result then (Some result, calls')
          else autoDetectLoop env rest calls')"

definition autoDetectLocalServer :: "environment \<Rightarrow> fetchCall list \<Rightarrow> serverAvailability \<times> fetchCall list" where
  "autoDetectLocalServer env calls =
     (case autoDetectLoop env commonEndpoints calls of
        (Some result, calls') \<Rightarrow> (result, calls')
      | (None, calls') \<Rightarrow>
          (\<lparr>isAvailable = False, serverType = None, serverBaseUrl = None, models = None,
            error = Some ''No local model server detected on common ports (11434, 8000)''\<rparr>,
           calls'))"


text \<open>
  The specification's view of auto-detection: the endpoints probed one after the other,
  each with a timeout of 2000 milliseconds and each starting from the log the probe
  before it left; the result is the first of these that is available.
\<close>

fun probeEach ::
  "environment \<Rightarrow> string list \<Rightarrow> fetchCall list \<Rightarrow> (serverAvailability \<times> fetchCall list) list" where
  "probeEach env [] calls = []"
| "probeEach env (endpoint # rest) calls =
     (let p = checkLocalServerAvailability env endpoint (Some 2000) calls
      in p # probeEach env rest (snd p))"


section \<open>Facts about the string tests\<close>

lemma includes_toLowerCase:
  "str_includes u p \<Longrightarrow> str_includes (toLowerCase u) (toLowerCase p)"
  unfolding str_includes_def toLowerCase_def by (rule map_mono_sublist)

lemma lower_localhost_11434: "toLowerCase ''localhost:11434'' = ''localhost:11434''"
  by (simp add: toLowerCase_def toLowerChar_def)

lemma lower_loopback_11434: "toLowerCase ''127.0.0.1:11434'' = ''127.0.0.1:11434''"
  by (simp add: toLowerCase_def toLowerChar_def)

lemma lower_localhost_8000: "toLowerCase ''localhost:8000'' = ''localhost:8000''"
  by (simp add: toLowerCase_def toLowerChar_def)

lemma lower_loopback_8000: "toLowerCase ''127.0.0.1:8000'' = ''127.0.0.1:8000''"
  by (simp add: toLowerCase_def toLowerChar_def)

lemma lower_LOCALHOST_11434: "toLowerCase ''LOCALHOST:11434'' = ''localhost:11434''"
  by (simp add: toLowerCase_def toLowerChar_def)

lemma empty_includes: "str_includes '''' p \<longleftrightarrow> p = ''''"
  by (simp add: str_includes_def)

lemma empty_startsWith: "startsWith '''' p \<longleftrightarrow> p = ''''"
  by (simp add: startsWith_def)

lemma startsWith_Qwen_not_qwen: "startsWith m ''Qwen'' \<Longrightarrow> \<not> startsWith m ''qwen''"
  by (auto simp: startsWith_def prefix_def)

lemma isOllamaProvider_iff:
  "isOllamaProvider c \<longleftrightarrow>
     (\<exists>u. config.baseUrl c = Some u \<and>
          (str_includes (toLowerCase u) ''localhost:11434'' \<or>
           str_includes (toLowerCase u) ''127.0.0.1:11434'')) \<or>
     (\<exists>m. config.model c = Some m \<and> str_includes m '':'' \<and> startsWith m ''qwen'')"
  by (cases "config.baseUrl c"; cases "config.model c")
     (simp_all add: isOllamaProvider_def Let_def empty_includes empty_startsWith)

lemma isVllmProvider_iff:
  "isVllmProvider c \<longleftrightarrow>
     (\<exists>u. config.baseUrl c = Some u \<and>
          (str_includes (toLowerCase u) ''localhost:8000'' \<or>
           str_includes (toLowerCase u) ''127.0.0.1:8000''))"
  by (cases "config.baseUrl c")
     (simp_all add: isVllmProvider_def Let_def empty_includes)

lemma raw_includes_isVllmProvider:
  assumes "config.baseUrl c = Some u"
    and "str_includes u ''localhost:8000'' \<or> str_includes u ''127.0.0.1:8000''"
  shows "isVllmProvider c"
  using assms includes_toLowerCase [of u "''localhost:8000''"]
    includes_toLowerCase [of u "''127.0.0.1:8000''"]
  by (auto simp: isVllmProvider_iff lower_localhost_8000 lower_loopback_8000)

lemma raw_includes_isOllamaProvider:
  assumes "config.baseUrl c = Some u"
    and "str_includes u ''localhost:11434'' \<or> str_includes u ''127.0.0.1:11434''"
  shows "isOllamaProvider c"
  using assms includes_toLowerCase [of u "''localhost:11434''"]
    includes_toLowerCase [of u "''127.0.0.1:11434''"]
  by (auto simp: isOllamaProvider_iff lower_localhost_11434 lower_loopback_11434)

lemma determineProvider_Ollama:
  "isOllamaProvider c \<Longrightarrow> determineProvider cloud (Some c) cli = OllamaProvider (Some c) cli"
  by (simp add: determineProvider_def)

lemma determineProvider_Vllm:
  "\<not> isOllamaProvider c \<Longrightarrow> isVllmProvider c \<Longrightarrow>
   determineProvider cloud (Some c) cli = VllmProvider (Some c) cli"
  by (simp add: determineProvider_def)

lemma determineProvider_not_Ollama:
  "\<not> isOllamaProvider c \<Longrightarrow> variantOf (determineProvider cloud (Some c) cli) \<noteq> Ollama"
  by (simp add: determineProvider_def)


section \<open>Provider resolution\<close>

text \<open>
  C1. The resolver tries the variants in the order Ollama, vLLM, DashScope, DeepSeek,
  OpenRouter, ModelScope, Default, and returns the variant of the first predicate that
  holds. So a configuration that satisfies the Ollama predicate gets the Ollama
  provider whatever the later predicates say, and a configuration whose base URL
  contains \<open>localhost:8000\<close> or \<open>127.0.0.1:8000\<close> and which does not satisfy the Ollama
  predicate gets the vLLM provider.
\<close>

theorem determineProvider_first_match:
  "map fst (priorityOrder cloud) =
     [Ollama, Vllm, DashScope, DeepSeek, OpenRouter, ModelScope, Default] \<and>
   firstMatch (priorityOrder cloud) c = Some (variantOf (determineProvider cloud (Some c) cli)) \<and>
   (isOllamaProvider c \<longrightarrow>
      determineProvider cloud (Some c) cli = OllamaProvider (Some c) cli) \<and>
   ((\<exists>u. config.baseUrl c = Some u \<and>
         (str_includes u ''localhost:8000'' \<or> str_includes u ''127.0.0.1:8000'')) \<and>
    \<not> isOllamaProvider c \<longrightarrow>
      determineProvider cloud (Some c) cli = VllmProvider (Some c) cli)"
proof -
  have "map fst (priorityOrder cloud) =
      [Ollama, Vllm, DashScope, DeepSeek, OpenRouter, ModelScope, Default]"
    by (simp add: priorityOrder_def)
  moreover have "firstMatch (priorityOrder cloud) c =
      Some (variantOf (determineProvider cloud (Some c) cli))"
    by (simp add: firstMatch_def priorityOrder_def determineProvider_def)
  moreover have "isOllamaProvider c \<longrightarrow>
      determineProvider cloud (Some c) cli = OllamaProvider (Some c) cli"
    by (simp add: determineProvider_Ollama)
  moreover have "(\<exists>u. config.baseUrl c = Some u \<and>
         (str_includes u ''localhost:8000'' \<or> str_includes u ''127.0.0.1:8000'')) \<and>
      \<not> isOllamaProvider c \<longrightarrow>
      determineProvider cloud (Some c) cli = VllmProvider (Some c) cli"
    using raw_includes_isVllmProvider determineProvider_Vllm by blast
  ultimately show ?thesis by blast
qed

theorem determineProvider_first_match_witness:
  "isOllamaProvider
     \<lparr>baseUrl = Some ''http://localhost:11434/v1'', apiKey = None,
      model = Some ''qwen3-coder'', timeout = None, maxRetries = None\<rparr> \<and>
   determineProvider
     \<lparr>isDashScopeProvider = (\<lambda>_. True), isDeepSeekProvider = (\<lambda>_. True),
      isOpenRouterProvider = (\<lambda>_. True), isModelScopeProvider = (\<lambda>_. True)\<rparr>
     (Some \<lparr>baseUrl = Some ''http://localhost:11434/v1'', apiKey = None,
            model = Some ''qwen3-coder'', timeout = None, maxRetries = None\<rparr>)
     \<lparr>getCliVersion = None,
      getContentGeneratorConfig =
        \<lparr>baseUrl = None, apiKey = None, model = None, timeout = None,
         maxRetries = None\<rparr>\<rparr>
   = OllamaProvider
     (Some \<lparr>baseUrl = Some ''http://localhost:11434/v1'', apiKey = None,
            model = Some ''qwen3-coder'', timeout = None, maxRetries = None\<rparr>)
     \<lparr>getCliVersion = None,
      getContentGeneratorConfig =
        \<lparr>baseUrl = None, apiKey = None, model = None, timeout = None,
         maxRetries = None\<rparr>\<rparr> \<and>
   str_includes ''http://localhost:8000/v1'' ''localhost:8000'' \<and>
   \<not> isOllamaProvider
     \<lparr>baseUrl = Some ''http://localhost:8000/v1'', apiKey = None,
      model = Some ''Qwen/Qwen3-Coder-14B'', timeout = None, maxRetries = None\<rparr> \<and>
   determineProvider
     \<lparr>isDashScopeProvider = (\<lambda>_. True), isDeepSeekProvider = (\<lambda>_. True),
      isOpenRouterProvider = (\<lambda>_. True), isModelScopeProvider = (\<lambda>_. True)\<rparr>
     (Some \<lparr>baseUrl = Some ''http://localhost:8000/v1'', apiKey = None,
            model = Some ''Qwen/Qwen3-Coder-14B'', timeout = None, maxRetries = None\<rparr>)
     \<lparr>getCliVersion = None,
      getContentGeneratorConfig =
        \<lparr>baseUrl = None, apiKey = None, model = None, timeout = None,
         maxRetries = None\<rparr>\<rparr>
   = VllmProvider
     (Some \<lparr>baseUrl = Some ''http://localhost:8000/v1'', apiKey = None,
            model = Some ''Qwen/Qwen3-Coder-14B'', timeout = None, maxRetries = None\<rparr>)
     \<lparr>getCliVersion = None,
      getContentGeneratorConfig =
        \<lparr>baseUrl = None, apiKey = None, model = None, timeout = None,
         maxRetries = None\<rparr>\<rparr>"
  (is "?ho \<and> ?ro \<and> ?hv \<and> ?hn \<and> ?rv")
proof -
  have ho: ?ho by code_simp
  have hv: ?hv by code_simp
  have hn: ?hn by code_simp
  from ho have ro: ?ro
    using determineProvider_first_match by blast
  have rv: ?rv
    using hv hn determineProvider_first_match
      [of _ "\<lparr>baseUrl = Some ''http://localhost:8000/v1'', apiKey = None,
            model = Some ''Qwen/Qwen3-Coder-14B'', timeout = None, maxRetries = None\<rparr>"]
    by simp
  from ho ro hv hn rv show ?thesis by blast
qed

text \<open>
  C3. Resolution always yields one provider, bound to the configuration it was given,
  and the variant depends on that configuration only (not on the CLI configuration
  passed along). A configuration with no base URL and no model, which none of the
  cloud predicates claims, gets the default provider.
\<close>

theorem determineProvider_total_deterministic:
  "determineProvider cloud (Some c) cli \<in>
     {OllamaProvider (Some c) cli, VllmProvider (Some c) cli,
      DashScopeOpenAICompatibleProvider (Some c) cli,
      DeepSeekOpenAICompatibleProvider (Some c) cli,
      OpenRouterOpenAICompatibleProvider (Some c) cli,
      ModelScopeOpenAICompatibleProvider (Some c) cli,
      DefaultOpenAICompatibleProvider (Some c) cli} \<and>
   variantOf (determineProvider cloud (Some c) cli) =
     variantOf (determineProvider cloud (Some c) cli') \<and>
   (config.baseUrl c = None \<and> config.model c = None \<and>
    \<not> isDashScopeProvider cloud c \<and> \<not> isDeepSeekProvider cloud c \<and>
    \<not> isOpenRouterProvider cloud c \<and> \<not> isModelScopeProvider cloud c \<longrightarrow>
      determineProvider cloud (Some c) cli = DefaultOpenAICompatibleProvider (Some c) cli)"
proof -
  have "config.baseUrl c = None \<Longrightarrow> config.model c = None \<Longrightarrow> \<not> isOllamaProvider c"
    by (simp add: isOllamaProvider_iff)
  moreover have "config.baseUrl c = None \<Longrightarrow> \<not> isVllmProvider c"
    by (simp add: isVllmProvider_iff)
  ultimately show ?thesis
    by (auto simp: determineProvider_def)
qed

theorem determineProvider_total_deterministic_witness:
  "determineProvider
     \<lparr>isDashScopeProvider = (\<lambda>_. False), isDeepSeekProvider = (\<lambda>_. False),
      isOpenRouterProvider = (\<lambda>_. False), isModelScopeProvider = (\<lambda>_. False)\<rparr>
     (Some \<lparr>baseUrl = None, apiKey = None, model = None, timeout = None,
            maxRetries = None\<rparr>)
     \<lparr>getCliVersion = None,
      getContentGeneratorConfig =
        \<lparr>baseUrl = None, apiKey = None, model = None, timeout = None,
         maxRetries = None\<rparr>\<rparr>
   = DefaultOpenAICompatibleProvider
     (Some \<lparr>baseUrl = None, apiKey = None, model = None, timeout = None,
            maxRetries = None\<rparr>)
     \<lparr>getCliVersion = None,
      getContentGeneratorConfig =
        \<lparr>baseUrl = None, apiKey = None, model = None, timeout = None,
         maxRetries = None\<rparr>\<rparr>"
  using determineProvider_total_deterministic
    [of "\<lparr>isDashScopeProvider = (\<lambda>_. False), isDeepSeekProvider = (\<lambda>_. False),
         isOpenRouterProvider = (\<lambda>_. False), isModelScopeProvider = (\<lambda>_. False)\<rparr>"
        "\<lparr>baseUrl = None, apiKey = None, model = None, timeout = None, maxRetries = None\<rparr>"
        "\<lparr>getCliVersion = None,
      getContentGeneratorConfig =
        \<lparr>baseUrl = None, apiKey = None, model = None, timeout = None,
         maxRetries = None\<rparr>\<rparr>"
        "\<lparr>getCliVersion = None,
      getContentGeneratorConfig =
        \<lparr>baseUrl = None, apiKey = None, model = None, timeout = None,
         maxRetries = None\<rparr>\<rparr>"]
  by simp

text \<open>
  C4, as the specification states it, reads the base URL as it is written. The
  predicate lowers the base URL first, so it also holds for a base URL that spells the
  host in capitals, which contains neither substring.
\<close>

theorem isOllamaProvider_stated_counterexample:
  "isOllamaProvider
     \<lparr>baseUrl = Some ''http://LOCALHOST:11434/v1'', apiKey = None,
      model = Some ''llama3'', timeout = None, maxRetries = None\<rparr> \<and>
   \<not> (str_includes ''http://LOCALHOST:11434/v1'' ''localhost:11434'' \<or>
      str_includes ''http://LOCALHOST:11434/v1'' ''127.0.0.1:11434'' \<or>
      (str_includes ''llama3'' '':'' \<and> startsWith ''llama3'' ''qwen''))"
  by code_simp

text \<open>
  C4, amended. The Ollama predicate holds exactly when the base URL, lower-cased,
  contains \<open>localhost:11434\<close> or \<open>127.0.0.1:11434\<close>, or the model contains a colon
  and starts with \<open>qwen\<close>. In particular a configuration whose base URL contains one
  of the two substrings gets the Ollama provider.
\<close>

theorem isOllamaProvider_exactly:
  "(isOllamaProvider c \<longleftrightarrow>
      (\<exists>u. config.baseUrl c = Some u \<and>
           (str_includes (toLowerCase u) ''localhost:11434'' \<or>
            str_includes (toLowerCase u) ''127.0.0.1:11434'')) \<or>
      (\<exists>m. config.model c = Some m \<and> str_includes m '':'' \<and> startsWith m ''qwen'')) \<and>
   (config.baseUrl c = Some u \<and>
    (str_includes u ''localhost:11434'' \<or> str_includes u ''127.0.0.1:11434'') \<longrightarrow>
      determineProvider cloud (Some c) cli = OllamaProvider (Some c) cli)"
  using isOllamaProvider_iff [of c] raw_includes_isOllamaProvider [of c u]
    determineProvider_Ollama [of c cloud cli]
  by blast

theorem isOllamaProvider_exactly_witness:
  "str_includes ''http://127.0.0.1:11434/v1'' ''127.0.0.1:11434'' \<and>
   determineProvider
     \<lparr>isDashScopeProvider = (\<lambda>_. False), isDeepSeekProvider = (\<lambda>_. False),
      isOpenRouterProvider = (\<lambda>_. False), isModelScopeProvider = (\<lambda>_. False)\<rparr>
     (Some \<lparr>baseUrl = Some ''http://127.0.0.1:11434/v1'', apiKey = None,
            model = None, timeout = None, maxRetries = None\<rparr>)
     \<lparr>getCliVersion = None,
      getContentGeneratorConfig =
        \<lparr>baseUrl = None, apiKey = None, model = None, timeout = None,
         maxRetries = None\<rparr>\<rparr>
   = OllamaProvider
     (Some \<lparr>baseUrl = Some ''http://127.0.0.1:11434/v1'', apiKey = None,
            model = None, timeout = None, maxRetries = None\<rparr>)
     \<lparr>getCliVersion = None,
      getContentGeneratorConfig =
        \<lparr>baseUrl = None, apiKey = None, model = None, timeout = None,
         maxRetries = None\<rparr>\<rparr>"
proof -
  have h: "str_includes ''http://127.0.0.1:11434/v1'' ''127.0.0.1:11434''"
    by code_simp
  with isOllamaProvider_exactly
    [of "\<lparr>baseUrl = Some ''http://127.0.0.1:11434/v1'', apiKey = None,
         model = None, timeout = None, maxRetries = None\<rparr>"
        "''http://127.0.0.1:11434/v1''"
        "\<lparr>isDashScopeProvider = (\<lambda>_. False), isDeepSeekProvider = (\<lambda>_. False),
      isOpenRouterProvider = (\<lambda>_. False), isModelScopeProvider = (\<lambda>_. False)\<rparr>"
        "\<lparr>getCliVersion = None,
      getContentGeneratorConfig =
        \<lparr>baseUrl = None, apiKey = None, model = None, timeout = None,
         maxRetries = None\<rparr>\<rparr>"]
  show ?thesis by simp
qed

text \<open>
  C10. The base URL is matched without regard to letter case: two base URLs that are
  equal once lower-cased are treated alike, and a base URL containing
  \<open>LOCALHOST:11434\<close> satisfies the Ollama predicate. The model test is sensitive to
  case: when the base URL has neither of the two 11434 substrings and the model
  contains a colon but starts with \<open>Qwen\<close>, the predicate is false and the provider
  returned is not the Ollama one.
\<close>

theorem isOllamaProvider_letter_case:
  "(toLowerCase u = toLowerCase u' \<longrightarrow>
      isOllamaProvider (c\<lparr>baseUrl := Some u\<rparr>) = isOllamaProvider (c\<lparr>baseUrl := Some u'\<rparr>)) \<and>
   (str_includes u ''LOCALHOST:11434'' \<longrightarrow> isOllamaProvider (c\<lparr>baseUrl := Some u\<rparr>)) \<and>
   ((\<forall>w. config.baseUrl c = Some w \<longrightarrow>
          \<not> str_includes (toLowerCase w) ''localhost:11434'' \<and>
          \<not> str_includes (toLowerCase w) ''127.0.0.1:11434'') \<and>
    config.model c = Some m \<and> str_includes m '':'' \<and> startsWith m ''Qwen'' \<longrightarrow>
      \<not> isOllamaProvider c \<and>
      variantOf (determineProvider cloud (Some c) cli) \<noteq> Ollama)"
proof -
  have a: "toLowerCase u = toLowerCase u' \<longrightarrow>
      isOllamaProvider (c\<lparr>baseUrl := Some u\<rparr>) = isOllamaProvider (c\<lparr>baseUrl := Some u'\<rparr>)"
    by (simp add: isOllamaProvider_iff)
  have b: "str_includes u ''LOCALHOST:11434'' \<longrightarrow> isOllamaProvider (c\<lparr>baseUrl := Some u\<rparr>)"
    using includes_toLowerCase [of u "''LOCALHOST:11434''"]
    by (simp add: isOllamaProvider_iff lower_LOCALHOST_11434)
  have d: "\<not> isOllamaProvider c"
    if "\<forall>w. config.baseUrl c = Some w \<longrightarrow>
          \<not> str_includes (toLowerCase w) ''localhost:11434'' \<and>
          \<not> str_includes (toLowerCase w) ''127.0.0.1:11434''"
      and "config.model c = Some m" and "startsWith m ''Qwen''"
    using that startsWith_Qwen_not_qwen [of m] by (auto simp: isOllamaProvider_iff)
  from a b d determineProvider_not_Ollama [of c cloud cli] show ?thesis by blast
qed

theorem isOllamaProvider_letter_case_witness:
  "toLowerCase ''http://LocalHost:11434/v1'' = toLowerCase ''http://LOCALHOST:11434/v1'' \<and>
   str_includes ''http://LOCALHOST:11434/v1'' ''LOCALHOST:11434'' \<and>
   isOllamaProvider
     \<lparr>baseUrl = Some ''http://LOCALHOST:11434/v1'', apiKey = None,
      model = Some ''Qwen:14b'', timeout = None, maxRetries = None\<rparr> \<and>
   str_includes ''Qwen:14b'' '':'' \<and> startsWith ''Qwen:14b'' ''Qwen'' \<and>
   \<not> isOllamaProvider
     \<lparr>baseUrl = Some ''https://example.com/v1'', apiKey = None,
      model = Some ''Qwen:14b'', timeout = None, maxRetries = None\<rparr> \<and>
   variantOf (determineProvider
     \<lparr>isDashScopeProvider = (\<lambda>_. False), isDeepSeekProvider = (\<lambda>_. False),
      isOpenRouterProvider = (\<lambda>_. False), isModelScopeProvider = (\<lambda>_. False)\<rparr>
     (Some \<lparr>baseUrl = Some ''https://example.com/v1'', apiKey = None,
            model = Some ''Qwen:14b'', timeout = None, maxRetries = None\<rparr>)
     \<lparr>getCliVersion = None,
      getContentGeneratorConfig =
        \<lparr>baseUrl = None, apiKey = None, model = None, timeout = None,
         maxRetries = None\<rparr>\<rparr>) \<noteq> Ollama"
  (is "?h1 \<and> ?h2 \<and> ?r2 \<and> ?h3 \<and> ?h4 \<and> ?r3 \<and> ?r4")
proof -
  have h1: ?h1 by code_simp
  have h2: ?h2 by code_simp
  have h3: ?h3 by code_simp
  have h4: ?h4 by code_simp
  have h5: "\<not> str_includes (toLowerCase ''https://example.com/v1'') ''localhost:11434'' \<and>
            \<not> str_includes (toLowerCase ''https://example.com/v1'') ''127.0.0.1:11434''"
    by code_simp
  have r2: ?r2
    using h2 isOllamaProvider_letter_case
      [of "''http://LOCALHOST:11434/v1''" _
          "\<lparr>baseUrl = None, apiKey = None,
            model = Some ''Qwen:14b'', timeout = None, maxRetries = None\<rparr>"]
    by simp
  have r34: "?r3 \<and> ?r4"
    using h3 h4 h5 isOllamaProvider_letter_case
      [of _ _ "\<lparr>baseUrl = Some ''https://example.com/v1'', apiKey = None,
            model = Some ''Qwen:14b'', timeout = None, maxRetries = None\<rparr>"
          "''Qwen:14b''"
          "\<lparr>isDashScopeProvider = (\<lambda>_. False), isDeepSeekProvider = (\<lambda>_. False),
      isOpenRouterProvider = (\<lambda>_. False), isModelScopeProvider = (\<lambda>_. False)\<rparr>"
          "\<lparr>getCliVersion = None,
      getContentGeneratorConfig =
        \<lparr>baseUrl = None, apiKey = None, model = None, timeout = None,
         maxRetries = None\<rparr>\<rparr>"]
    by simp
  from h1 h2 r2 h3 h4 r34 show ?thesis by blast
qed

section \<open>Building requests\<close>

lemma buildRequest_string:
  "request ''model'' = Some (Json (JString m)) \<Longrightarrow>
   OllamaProvider_buildRequest request uid =
     Inr (request(''model'' \<mapsto> mapModelName m, ''keep_alive'' \<mapsto> Json (JString ''5m'')))"
  by (simp add: OllamaProvider_buildRequest_def)

lemma modelMap_keys:
  "map_of modelMap m = Some tag \<Longrightarrow>
   m \<in> {''coder-model'', ''qwen3-coder'', ''qwen3-coder-7b'', ''qwen3-coder-14b'',
        ''qwen3-coder-32b'', ''qwen3-coder-plus''}"
  by (simp add: modelMap_def split: if_splits)

lemma modelMap_key_plain:
  assumes "map_of modelMap m = Some tag"
  shows "\<not> str_includes m '':'' \<and> toLowerCase m = m"
proof -
  have "\<not> str_includes k '':'' \<and> toLowerCase k = k"
    if "k \<in> {''coder-model'', ''qwen3-coder'', ''qwen3-coder-7b'', ''qwen3-coder-14b'',
        ''qwen3-coder-32b'', ''qwen3-coder-plus''}" for k
    using that
    by (auto simp: str_includes_def sublist_code toLowerCase_def toLowerChar_def)
  with modelMap_keys [OF assms] show ?thesis by blast
qed

lemma mapModelName_colon: "str_includes m '':'' \<Longrightarrow> mapModelName m = Json (JString m)"
  by (simp add: mapModelName_def)

lemma mapModelName_alias:
  "\<not> str_includes m '':'' \<Longrightarrow> map_of modelMap (toLowerCase m) = Some tag \<Longrightarrow>
   mapModelName m = Json (JString tag)"
proof -
  assume a: "\<not> str_includes m '':''" and b: "map_of modelMap (toLowerCase m) = Some tag"
  have "tag \<noteq> []"
    using b by (auto simp: modelMap_def DEFAULT_OLLAMA_MODEL_def split: if_splits)
  with a b show ?thesis
    by (simp add: mapModelName_def lookupProperty_def)
qed

lemma mapModelName_default:
  "\<not> str_includes m '':'' \<Longrightarrow> map_of modelMap (toLowerCase m) = None \<Longrightarrow>
   toLowerCase m \<notin> set objectPrototypeProperties \<Longrightarrow>
   mapModelName m = Json (JString DEFAULT_OLLAMA_MODEL)"
  by (simp add: mapModelName_def lookupProperty_def)

lemma mapModelName_exact_alias:
  "map_of modelMap m = Some tag \<Longrightarrow> mapModelName m = Json (JString tag)"
  using modelMap_key_plain [of m tag] mapModelName_alias [of m tag] by simp

lemma mapModelName_constructor: "mapModelName ''Constructor'' = Inherited ''constructor''"
  by code_simp

text \<open>
  C7. The vLLM adapter returns a request equal to the one it was given: the same
  fields with the same values.
\<close>

theorem VllmProvider_buildRequest_identity:
  "VllmProvider_buildRequest request userPromptId = request"
  by (simp add: VllmProvider_buildRequest_def)

text \<open>
  C2, as the specification states it: an exact alias wins, else a model with a colon
  passes through, else the default tag is used. The model \<open>Qwen3-Coder-7B\<close> is not a
  key of the alias map and has no colon, and yet is not given the default tag: the
  alias map is looked up with the model lower-cased.
\<close>

theorem OllamaProvider_buildRequest_stated_counterexample:
  "map_of modelMap ''Qwen3-Coder-7B'' = None \<and>
   \<not> str_includes ''Qwen3-Coder-7B'' '':'' \<and>
   OllamaProvider_buildRequest [''model'' \<mapsto> Json (JString ''Qwen3-Coder-7B'')] ''prompt-1'' =
     Inr [''model'' \<mapsto> Json (JString ''qwen3-coder:7b''),
          ''keep_alive'' \<mapsto> Json (JString ''5m'')] \<and>
   ''qwen3-coder:7b'' \<noteq> DEFAULT_OLLAMA_MODEL"
proof -
  have "map_of modelMap ''Qwen3-Coder-7B'' = None" by code_simp
  moreover have "\<not> str_includes ''Qwen3-Coder-7B'' '':''" by code_simp
  moreover have "mapModelName ''Qwen3-Coder-7B'' = Json (JString ''qwen3-coder:7b'')"
    by code_simp
  then have "OllamaProvider_buildRequest [''model'' \<mapsto> Json (JString ''Qwen3-Coder-7B'')] ''prompt-1'' =
     Inr [''model'' \<mapsto> Json (JString ''qwen3-coder:7b''),
          ''keep_alive'' \<mapsto> Json (JString ''5m'')]"
    by (simp add: OllamaProvider_buildRequest_def)
  moreover have "''qwen3-coder:7b'' \<noteq> DEFAULT_OLLAMA_MODEL"
    by (simp add: DEFAULT_OLLAMA_MODEL_def)
  ultimately show ?thesis by blast
qed

text \<open>
  C2, amended. For a request whose model is the string \<open>m\<close>, the Ollama adapter
  returns a request with \<open>keep_alive\<close> set to \<open>5m\<close> and the model rewritten: a
  model containing a colon is kept; otherwise, when the lower-cased model is a key of
  the alias map, its tag is taken (so an exact alias gets its tag: \<open>qwen3-coder\<close>
  becomes \<open>qwen3-coder:14b\<close>); otherwise, when the lower-cased model is not the name
  of a property every object inherits, the default tag \<open>qwen3-coder:14b\<close> is taken.
\<close>

theorem OllamaProvider_buildRequest_model:
  "request ''model'' = Some (Json (JString m)) \<longrightarrow>
   (\<exists>out. OllamaProvider_buildRequest request userPromptId = Inr out \<and>
      out ''keep_alive'' = Some (Json (JString ''5m'')) \<and>
      (str_includes m '':'' \<longrightarrow> out ''model'' = Some (Json (JString m))) \<and>
      (\<forall>tag. map_of modelMap m = Some tag \<longrightarrow> out ''model'' = Some (Json (JString tag))) \<and>
      (\<forall>tag. \<not> str_includes m '':'' \<and> map_of modelMap (toLowerCase m) = Some tag \<longrightarrow>
         out ''model'' = Some (Json (JString tag))) \<and>
      (\<not> str_includes m '':'' \<and> map_of modelMap (toLowerCase m) = None \<and>
       toLowerCase m \<notin> set objectPrototypeProperties \<longrightarrow>
         out ''model'' = Some (Json (JString DEFAULT_OLLAMA_MODEL)))) \<and>
   map_of modelMap ''qwen3-coder'' = Some ''qwen3-coder:14b'' \<and>
   DEFAULT_OLLAMA_MODEL = ''qwen3-coder:14b''"
proof -
  have "map_of modelMap ''qwen3-coder'' = Some ''qwen3-coder:14b''"
    by (simp add: modelMap_def)
  moreover have "DEFAULT_OLLAMA_MODEL = ''qwen3-coder:14b''"
    by (simp add: DEFAULT_OLLAMA_MODEL_def)
  moreover have "\<exists>out. OllamaProvider_buildRequest request userPromptId = Inr out \<and>
      out ''keep_alive'' = Some (Json (JString ''5m'')) \<and>
      (str_includes m '':'' \<longrightarrow> out ''model'' = Some (Json (JString m))) \<and>
      (\<forall>tag. map_of modelMap m = Some tag \<longrightarrow> out ''model'' = Some (Json (JString tag))) \<and>
      (\<forall>tag. \<not> str_includes m '':'' \<and> map_of modelMap (toLowerCase m) = Some tag \<longrightarrow>
         out ''model'' = Some (Json (JString tag))) \<and>
      (\<not> str_includes m '':'' \<and> map_of modelMap (toLowerCase m) = None \<and>
       toLowerCase m \<notin> set objectPrototypeProperties \<longrightarrow>
         out ''model'' = Some (Json (JString DEFAULT_OLLAMA_MODEL)))"
    if typed: "request ''model'' = Some (Json (JString m))"
  proof -
    let ?out = "request(''model'' \<mapsto> mapModelName m, ''keep_alive'' \<mapsto> Json (JString ''5m''))"
    have "OllamaProvider_buildRequest request userPromptId = Inr ?out"
      using typed by (simp add: buildRequest_string)
    moreover have "?out ''keep_alive'' = Some (Json (JString ''5m''))" by simp
    moreover have "?out ''model'' = Some (mapModelName m)" by simp
    moreover have "str_includes m '':'' \<longrightarrow> mapModelName m = Json (JString m)"
      by (simp add: mapModelName_colon)
    moreover have "\<forall>tag. map_of modelMap m = Some tag \<longrightarrow> mapModelName m = Json (JString tag)"
      by (simp add: mapModelName_exact_alias)
    moreover have "\<forall>tag. \<not> str_includes m '':'' \<and> map_of modelMap (toLowerCase m) = Some tag \<longrightarrow>
        mapModelName m = Json (JString tag)"
      by (simp add: mapModelName_alias)
    moreover have "\<not> str_includes m '':'' \<and> map_of modelMap (toLowerCase m) = None \<and>
        toLowerCase m \<notin> set objectPrototypeProperties \<longrightarrow>
        mapModelName m = Json (JString DEFAULT_OLLAMA_MODEL)"
      by (simp add: mapModelName_default)
    ultimately show ?thesis by simp
  qed
  ultimately show ?thesis by blast
qed

theorem OllamaProvider_buildRequest_model_witness:
  "[''model'' \<mapsto> Json (JString ''qwen3-coder''), ''temperature'' \<mapsto> Json (JNumber (7 / 10))]
     ''model'' = Some (Json (JString ''qwen3-coder'')) \<and>
   \<not> str_includes ''qwen3-coder'' '':'' \<and>
   map_of modelMap (toLowerCase ''qwen3-coder'') = Some ''qwen3-coder:14b'' \<and>
   (\<exists>out. OllamaProvider_buildRequest
       [''model'' \<mapsto> Json (JString ''qwen3-coder''), ''temperature'' \<mapsto> Json (JNumber (7 / 10))]
       ''prompt-1'' = Inr out \<and>
      out ''keep_alive'' = Some (Json (JString ''5m'')) \<and>
      out ''model'' = Some (Json (JString ''qwen3-coder:14b'')))"
  (is "?h1 \<and> ?h2 \<and> ?h3 \<and> ?r")
proof -
  have h1: ?h1 by simp
  have h2: ?h2 by code_simp
  have h3: ?h3 by code_simp
  have ?r
    using h1 h2 h3 OllamaProvider_buildRequest_model
      [of "[''model'' \<mapsto> Json (JString ''qwen3-coder''), ''temperature'' \<mapsto> Json (JNumber (7 / 10))]"
          "''qwen3-coder''" "''prompt-1''"]
    by blast
  with h1 h2 h3 show ?thesis by blast
qed
text \<open>
  C9, as the specification states it: for every request the adapter adds exactly one
  new field, \<open>keep_alive\<close>, and changes no field but \<open>model\<close>. The declared type
  of a request does not keep a \<open>keep_alive\<close> field out; a request that carries one
  has it overwritten and gets no new field.
\<close>

theorem OllamaProvider_buildRequest_frame_stated_counterexample:
  "[''model'' \<mapsto> Json (JString ''CODER-MODEL''),
    ''keep_alive'' \<mapsto> Json (JString ''10m''),
    ''stream'' \<mapsto> Json (JBool True)] ''keep_alive'' = Some (Json (JString ''10m'')) \<and>
   OllamaProvider_buildRequest
     [''model'' \<mapsto> Json (JString ''CODER-MODEL''),
      ''keep_alive'' \<mapsto> Json (JString ''10m''),
      ''stream'' \<mapsto> Json (JBool True)] ''prompt-1'' =
     Inr [''model'' \<mapsto> Json (JString ''qwen3-coder:14b''),
          ''keep_alive'' \<mapsto> Json (JString ''5m''),
          ''stream'' \<mapsto> Json (JBool True)] \<and>
   dom [''model'' \<mapsto> Json (JString ''qwen3-coder:14b''),
        ''keep_alive'' \<mapsto> Json (JString ''5m''),
        ''stream'' \<mapsto> Json (JBool True)] -
   dom [''model'' \<mapsto> Json (JString ''CODER-MODEL''),
        ''keep_alive'' \<mapsto> Json (JString ''10m''),
        ''stream'' \<mapsto> Json (JBool True)] = {}"
proof -
  let ?req = "[''model'' \<mapsto> Json (JString ''CODER-MODEL''),
    ''keep_alive'' \<mapsto> Json (JString ''10m''),
    ''stream'' \<mapsto> Json (JBool True)]"
  let ?out = "[''model'' \<mapsto> Json (JString ''qwen3-coder:14b''),
    ''keep_alive'' \<mapsto> Json (JString ''5m''),
    ''stream'' \<mapsto> Json (JBool True)]"
  have a: "?req ''keep_alive'' = Some (Json (JString ''10m''))" by simp
  have m: "mapModelName ''CODER-MODEL'' = Json (JString ''qwen3-coder:14b'')"
    by code_simp
  have "?req ''model'' = Some (Json (JString ''CODER-MODEL''))" by simp
  then have "OllamaProvider_buildRequest ?req ''prompt-1'' =
      Inr (?req(''model'' \<mapsto> mapModelName ''CODER-MODEL'',
                ''keep_alive'' \<mapsto> Json (JString ''5m'')))"
    by (rule buildRequest_string)
  moreover have "?req(''model'' \<mapsto> Json (JString ''qwen3-coder:14b''),
                ''keep_alive'' \<mapsto> Json (JString ''5m'')) = ?out"
    by (rule ext) simp
  ultimately have b: "OllamaProvider_buildRequest ?req ''prompt-1'' = Inr ?out"
    by (simp only: m)
  have c: "dom ?out - dom ?req = {}" by simp
  show ?thesis by (rule conjI [OF a conjI [OF b c]])
qed

text \<open>
  C9, amended. For every request whose model is a string, the Ollama adapter returns
  a request in which every field other than \<open>model\<close> and \<open>keep_alive\<close> has the
  value it had; no field of the input is missing; \<open>keep_alive\<close> is \<open>5m\<close>, and it
  is the only field the output can have that the input has not: it is the one new
  field when the input has no \<open>keep_alive\<close>, and overwrites the input's otherwise.
\<close>

theorem OllamaProvider_buildRequest_frame:
  "request ''model'' = Some (Json (JString m)) \<longrightarrow>
   (\<exists>out. OllamaProvider_buildRequest request userPromptId = Inr out \<and>
      (\<forall>k. k \<noteq> ''model'' \<and> k \<noteq> ''keep_alive'' \<longrightarrow> out k = request k) \<and>
      dom request \<subseteq> dom out \<and>
      dom out = insert ''keep_alive'' (dom request) \<and>
      out ''keep_alive'' = Some (Json (JString ''5m'')) \<and>
      (''keep_alive'' \<notin> dom request \<longrightarrow>
         dom out - dom request = {''keep_alive''} \<and>
         (\<forall>k \<in> dom request. k \<noteq> ''model'' \<longrightarrow> out k = request k)) \<and>
      (''keep_alive'' \<in> dom request \<longrightarrow> dom out = dom request))"
proof
  assume typed: "request ''model'' = Some (Json (JString m))"
  let ?out = "request(''model'' \<mapsto> mapModelName m, ''keep_alive'' \<mapsto> Json (JString ''5m''))"
  have built: "OllamaProvider_buildRequest request userPromptId = Inr ?out"
    using typed by (simp add: buildRequest_string)
  have kept: "\<forall>k. k \<noteq> ''model'' \<and> k \<noteq> ''keep_alive'' \<longrightarrow> ?out k = request k"
    by simp
  have has_model: "''model'' \<in> dom request"
    using typed by auto
  have doms: "dom ?out = insert ''keep_alive'' (dom request)"
    using has_model by auto
  have sub: "dom request \<subseteq> dom ?out"
    using doms by auto
  have ka: "?out ''keep_alive'' = Some (Json (JString ''5m''))"
    by simp
  have fresh: "''keep_alive'' \<notin> dom request \<longrightarrow>
         dom ?out - dom request = {''keep_alive''} \<and>
         (\<forall>k \<in> dom request. k \<noteq> ''model'' \<longrightarrow> ?out k = request k)"
    using doms by auto
  have over: "''keep_alive'' \<in> dom request \<longrightarrow> dom ?out = dom request"
    using doms by auto
  show "\<exists>out. OllamaProvider_buildRequest request userPromptId = Inr out \<and>
      (\<forall>k. k \<noteq> ''model'' \<and> k \<noteq> ''keep_alive'' \<longrightarrow> out k = request k) \<and>
      dom request \<subseteq> dom out \<and>
      dom out = insert ''keep_alive'' (dom request) \<and>
      out ''keep_alive'' = Some (Json (JString ''5m'')) \<and>
      (''keep_alive'' \<notin> dom request \<longrightarrow>
         dom out - dom request = {''keep_alive''} \<and>
         (\<forall>k \<in> dom request. k \<noteq> ''model'' \<longrightarrow> out k = request k)) \<and>
      (''keep_alive'' \<in> dom request \<longrightarrow> dom out = dom request)"
    by (rule exI [of _ ?out]) (intro conjI built kept sub doms ka fresh over)
qed

theorem OllamaProvider_buildRequest_frame_witness:
  "[''model'' \<mapsto> Json (JString ''custom:latest''),
      ''messages'' \<mapsto>
        Json (JArray [JObject [(''role'', JString ''user''), (''content'', JString ''hi'')]]),
      ''temperature'' \<mapsto> Json (JNumber (7 / 10))] ''model'' = Some (Json (JString ''custom:latest'')) \<and>
   ''keep_alive'' \<notin> dom
     [''model'' \<mapsto> Json (JString ''custom:latest''),
      ''messages'' \<mapsto>
        Json (JArray [JObject [(''role'', JString ''user''), (''content'', JString ''hi'')]]),
      ''temperature'' \<mapsto> Json (JNumber (7 / 10))] \<and>
   (\<exists>out. OllamaProvider_buildRequest
       [''model'' \<mapsto> Json (JString ''custom:latest''),
      ''messages'' \<mapsto>
        Json (JArray [JObject [(''role'', JString ''user''), (''content'', JString ''hi'')]]),
      ''temperature'' \<mapsto> Json (JNumber (7 / 10))] ''prompt-1'' = Inr out \<and>
      (\<forall>k. k \<noteq> ''model'' \<and> k \<noteq> ''keep_alive'' \<longrightarrow>
         out k =
           [''model'' \<mapsto> Json (JString ''custom:latest''),
      ''messages'' \<mapsto>
        Json (JArray [JObject [(''role'', JString ''user''), (''content'', JString ''hi'')]]),
      ''temperature'' \<mapsto> Json (JNumber (7 / 10))] k) \<and>
      dom
        [''model'' \<mapsto> Json (JString ''custom:latest''),
      ''messages'' \<mapsto>
        Json (JArray [JObject [(''role'', JString ''user''), (''content'', JString ''hi'')]]),
      ''temperature'' \<mapsto> Json (JNumber (7 / 10))] \<subseteq> dom out \<and>
      dom out - dom
        [''model'' \<mapsto> Json (JString ''custom:latest''),
      ''messages'' \<mapsto>
        Json (JArray [JObject [(''role'', JString ''user''), (''content'', JString ''hi'')]]),
      ''temperature'' \<mapsto> Json (JNumber (7 / 10))] = {''keep_alive''} \<and>
      out ''keep_alive'' = Some (Json (JString ''5m'')))"
proof -
  let ?req = "[''model'' \<mapsto> Json (JString ''custom:latest''),
      ''messages'' \<mapsto>
        Json (JArray [JObject [(''role'', JString ''user''), (''content'', JString ''hi'')]]),
      ''temperature'' \<mapsto> Json (JNumber (7 / 10))]"
  have h1: "?req ''model'' = Some (Json (JString ''custom:latest''))" by simp
  have h2: "''keep_alive'' \<notin> dom ?req" by simp
  from mp [OF OllamaProvider_buildRequest_frame
             [of ?req "''custom:latest''" "''prompt-1''"] h1]
  obtain out where o: "OllamaProvider_buildRequest ?req ''prompt-1'' = Inr out \<and>
      (\<forall>k. k \<noteq> ''model'' \<and> k \<noteq> ''keep_alive'' \<longrightarrow> out k = ?req k) \<and>
      dom ?req \<subseteq> dom out \<and>
      dom out = insert ''keep_alive'' (dom ?req) \<and>
      out ''keep_alive'' = Some (Json (JString ''5m'')) \<and>
      (''keep_alive'' \<notin> dom ?req \<longrightarrow>
         dom out - dom ?req = {''keep_alive''} \<and>
         (\<forall>k \<in> dom ?req. k \<noteq> ''model'' \<longrightarrow> out k = ?req k)) \<and>
      (''keep_alive'' \<in> dom ?req \<longrightarrow> dom out = dom ?req)" ..
  note o1 = conjunct1 [OF o]
  note o2 = conjunct1 [OF conjunct2 [OF o]]
  note o3 = conjunct1 [OF conjunct2 [OF conjunct2 [OF o]]]
  note o5 = conjunct1 [OF conjunct2 [OF conjunct2 [OF conjunct2 [OF conjunct2 [OF o]]]]]
  note o6 = conjunct1 [OF conjunct2 [OF conjunct2 [OF conjunct2 [OF conjunct2 [OF conjunct2 [OF o]]]]]]
  note o6' = conjunct1 [OF mp [OF o6 h2]]
  have r: "\<exists>out. OllamaProvider_buildRequest ?req ''prompt-1'' = Inr out \<and>
      (\<forall>k. k \<noteq> ''model'' \<and> k \<noteq> ''keep_alive'' \<longrightarrow> out k = ?req k) \<and>
      dom ?req \<subseteq> dom out \<and>
      dom out - dom ?req = {''keep_alive''} \<and>
      out ''keep_alive'' = Some (Json (JString ''5m''))"
    by (rule exI [of _ out]) (intro conjI o1 o2 o3 o6' o5)
  show ?thesis by (rule conjI [OF h1 conjI [OF h2 r]])
qed


section \<open>Probing\<close>

lemma ollamaAttempt_available:
  "ollamaAttempt url r = Inr (Some res) \<Longrightarrow>
   isAvailable res \<and> serverType res = Some ollama \<and> serverBaseUrl res = Some url \<and>
   error res = None"
  by (auto simp: ollamaAttempt_def split: sum.splits if_splits)

lemma modelsAttempt_available:
  "modelsAttempt url r = Inr (Some res) \<Longrightarrow>
   isAvailable res \<and>
   serverType res = Some (if str_includes url '':8000'' then vllm else custom) \<and>
   serverBaseUrl res = Some url \<and> error res = None"
  by (auto simp: modelsAttempt_def split: sum.splits if_splits)

lemma ollamaAttempt_not_ok:
  "\<forall>r. o1 = Inr r \<longrightarrow> \<not> ok r \<Longrightarrow> ollamaAttempt url o1 \<noteq> Inr (Some res)"
  by (auto simp: ollamaAttempt_def split: sum.splits if_splits)

lemma modelsAttempt_not_ok:
  "\<forall>r. o2 = Inr r \<longrightarrow> \<not> ok r \<Longrightarrow>
   modelsAttempt url o2 = Inr None \<or> (\<exists>e. o2 = Inl e \<and> modelsAttempt url o2 = Inl e)"
  by (auto simp: modelsAttempt_def split: sum.splits if_splits)

lemma check_first:
  "ollamaAttempt url (fetch env calls (replaceV1Suffix url) ms) = Inr (Some res) \<Longrightarrow>
   ms = (case tmo of Some t \<Rightarrow> t | None \<Rightarrow> 5000) \<Longrightarrow>
   checkLocalServerAvailability env url tmo calls =
     (res, calls @ [(replaceV1Suffix url, ms)])"
  by (simp add: checkLocalServerAvailability_def Let_def)

lemma check_second:
  assumes "\<forall>res. ollamaAttempt url (fetch env calls (replaceV1Suffix url) ms) \<noteq> Inr (Some res)"
    and "ms = (case tmo of Some t \<Rightarrow> t | None \<Rightarrow> 5000)"
  shows "checkLocalServerAvailability env url tmo calls =
     (case modelsAttempt url
             (fetch env (calls @ [(replaceV1Suffix url, ms)])
                (if endsWith url ''/v1'' then url @ ''/models'' else url @ ''/v1/models'') ms) of
        Inl e \<Rightarrow>
          \<lparr>isAvailable = False, serverType = None, serverBaseUrl = None,
           models = None, error = Some (errorText env e)\<rparr>
      | Inr (Some result) \<Rightarrow> result
      | Inr None \<Rightarrow>
          \<lparr>isAvailable = False, serverType = None, serverBaseUrl = None, models = None,
           error = Some ''No local model server found at the specified URL''\<rparr>,
      calls @ [(replaceV1Suffix url, ms),
               (if endsWith url ''/v1'' then url @ ''/models'' else url @ ''/v1/models'', ms)])"
  using assms
  by (simp add: checkLocalServerAvailability_def Let_def split: sum.splits option.splits)

lemma check_error_or_available:
  "isAvailable (fst (checkLocalServerAvailability env url tmo calls)) \<or>
   error (fst (checkLocalServerAvailability env url tmo calls)) \<noteq> None"
proof (cases "\<exists>res. ollamaAttempt url (fetch env calls (replaceV1Suffix url)
    (case tmo of Some t \<Rightarrow> t | None \<Rightarrow> 5000)) = Inr (Some res)")
  case True
  then obtain res where r: "ollamaAttempt url (fetch env calls (replaceV1Suffix url)
    (case tmo of Some t \<Rightarrow> t | None \<Rightarrow> 5000)) = Inr (Some res)" by blast
  from check_first [OF r refl] ollamaAttempt_available [OF r] show ?thesis by simp
next
  case False
  then have n: "\<forall>res. ollamaAttempt url (fetch env calls (replaceV1Suffix url)
    (case tmo of Some t \<Rightarrow> t | None \<Rightarrow> 5000)) \<noteq> Inr (Some res)" by blast
  show ?thesis
    unfolding check_second [OF n refl]
    by (auto split: sum.splits option.splits dest: modelsAttempt_available)
qed

lemma check_unavailable_calls:
  assumes "\<not> isAvailable (fst (checkLocalServerAvailability env url tmo calls))"
    and "ms = (case tmo of Some t \<Rightarrow> t | None \<Rightarrow> 5000)"
  shows "snd (checkLocalServerAvailability env url tmo calls) =
     calls @ [(replaceV1Suffix url, ms),
              (if endsWith url ''/v1'' then url @ ''/models'' else url @ ''/v1/models'', ms)]"
proof (cases "\<exists>res. ollamaAttempt url (fetch env calls (replaceV1Suffix url) ms) = Inr (Some res)")
  case True
  then obtain res where r: "ollamaAttempt url (fetch env calls (replaceV1Suffix url) ms) = Inr (Some res)"
    by blast
  from check_first [OF r assms(2)] ollamaAttempt_available [OF r] assms(1) show ?thesis by simp
next
  case False
  then have n: "\<forall>res. ollamaAttempt url (fetch env calls (replaceV1Suffix url) ms) \<noteq> Inr (Some res)"
    by blast
  show ?thesis
    unfolding check_second [OF n assms(2)] by simp
qed

lemma check_calls_prefix:
  assumes "ms = (case tmo of Some t \<Rightarrow> t | None \<Rightarrow> 5000)"
  shows "\<exists>probes. snd (checkLocalServerAvailability env url tmo calls) = calls @ probes \<and>
     prefix probes [(replaceV1Suffix url, ms),
              (if endsWith url ''/v1'' then url @ ''/models'' else url @ ''/v1/models'', ms)]"
proof (cases "\<exists>res. ollamaAttempt url (fetch env calls (replaceV1Suffix url) ms) = Inr (Some res)")
  case True
  then obtain res where r: "ollamaAttempt url (fetch env calls (replaceV1Suffix url) ms) = Inr (Some res)"
    by blast
  from check_first [OF r assms] show ?thesis by simp
next
  case False
  then have n: "\<forall>res. ollamaAttempt url (fetch env calls (replaceV1Suffix url) ms) \<noteq> Inr (Some res)"
    by blast
  show ?thesis
    unfolding check_second [OF n assms] by simp
qed
lemma ollamaAttempt_iff:
  "(\<exists>res. ollamaAttempt url o1 = Inr (Some res)) \<longleftrightarrow>
   (\<exists>r body names. o1 = Inr r \<and> ok r \<and> json r = Inr body \<and>
      ollamaModelNames body = Inr names)"
  by (auto simp: ollamaAttempt_def split: sum.splits if_splits)

lemma modelsAttempt_readable:
  "o2 = Inr r \<Longrightarrow> ok r \<Longrightarrow> json r = Inr body \<Longrightarrow> openaiModelIds body = Inr ids \<Longrightarrow>
   modelsAttempt url o2 =
     Inr (Some \<lparr>isAvailable = True,
                serverType = Some (if str_includes url '':8000'' then vllm else custom),
                serverBaseUrl = Some url, models = Some ids, error = None\<rparr>)"
  by (simp add: modelsAttempt_def)

text \<open>
  C5, as the specification states it: when neither endpoint responds successfully the
  error text of the result is not empty. The error text of a rejected second
  \<open>fetch\<close> is the message of what was thrown, as it is; thrown with an empty
  message, it gives an empty error text.
\<close>

theorem checkLocalServerAvailability_negative_stated_counterexample:
  "fetch \<lparr>fetch = (\<lambda>_ _ _. Inl (JsError '''')), typeErrorMessage = (\<lambda>_. ''TypeError'')\<rparr>
     [] ''http://localhost:11434/api/tags'' 2000 = Inl (JsError '''') \<and>
   fetch \<lparr>fetch = (\<lambda>_ _ _. Inl (JsError '''')), typeErrorMessage = (\<lambda>_. ''TypeError'')\<rparr>
     [(''http://localhost:11434/api/tags'', 2000)] ''http://localhost:11434/v1/models'' 2000 =
     Inl (JsError '''') \<and>
   checkLocalServerAvailability
     \<lparr>fetch = (\<lambda>_ _ _. Inl (JsError '''')), typeErrorMessage = (\<lambda>_. ''TypeError'')\<rparr>
     ''http://localhost:11434/v1'' (Some 2000) [] =
     (\<lparr>isAvailable = False, serverType = None, serverBaseUrl = None, models = None,
       error = Some ''''\<rparr>,
      [(''http://localhost:11434/api/tags'', 2000), (''http://localhost:11434/v1/models'', 2000)])"
  by code_simp

text \<open>
  C5, amended. Every outcome of a probe is a value: a result that is available, or one
  that carries an error text. When neither of the two endpoints gives an \<open>ok\<close>
  response (each is rejected, by a failure or by the timeout, or answers with a status
  that is not \<open>ok\<close>), the result is unavailable and carries an error text: the fixed
  text \<open>No local model server found at the specified URL\<close>, which is not empty, when
  the models endpoint answered, and the message of the thrown error, as it is, when the
  second \<open>fetch\<close> was rejected.
\<close>

theorem checkLocalServerAvailability_negative:
  "(isAvailable (fst (checkLocalServerAvailability env url tmo calls)) \<or>
    error (fst (checkLocalServerAvailability env url tmo calls)) \<noteq> None) \<and>
   (ms = (case tmo of Some t \<Rightarrow> t | None \<Rightarrow> 5000) \<and>
    (\<forall>r. fetch env calls (replaceV1Suffix url) ms = Inr r \<longrightarrow> \<not> ok r) \<and>
    (\<forall>r. fetch env (calls @ [(replaceV1Suffix url, ms)])
           (if endsWith url ''/v1'' then url @ ''/models'' else url @ ''/v1/models'') ms = Inr r
         \<longrightarrow> \<not> ok r) \<longrightarrow>
    (\<exists>e. fst (checkLocalServerAvailability env url tmo calls) =
           \<lparr>isAvailable = False, serverType = None, serverBaseUrl = None, models = None,
            error = Some e\<rparr> \<and>
         (case fetch env (calls @ [(replaceV1Suffix url, ms)])
                 (if endsWith url ''/v1'' then url @ ''/models'' else url @ ''/v1/models'') ms of
            Inr r \<Rightarrow> e = ''No local model server found at the specified URL'' \<and> e \<noteq> ''''
          | Inl thrown \<Rightarrow> e = errorText env thrown)))"
proof (intro conjI impI)
  show "isAvailable (fst (checkLocalServerAvailability env url tmo calls)) \<or>
    error (fst (checkLocalServerAvailability env url tmo calls)) \<noteq> None"
    by (rule check_error_or_available)
next
  let ?o2 = "fetch env (calls @ [(replaceV1Suffix url, ms)])
           (if endsWith url ''/v1'' then url @ ''/models'' else url @ ''/v1/models'') ms"
  assume h: "ms = (case tmo of Some t \<Rightarrow> t | None \<Rightarrow> 5000) \<and>
    (\<forall>r. fetch env calls (replaceV1Suffix url) ms = Inr r \<longrightarrow> \<not> ok r) \<and>
    (\<forall>r. ?o2 = Inr r \<longrightarrow> \<not> ok r)"
  then have ms: "ms = (case tmo of Some t \<Rightarrow> t | None \<Rightarrow> 5000)"
    and o1: "\<forall>r. fetch env calls (replaceV1Suffix url) ms = Inr r \<longrightarrow> \<not> ok r"
    and o2: "\<forall>r. ?o2 = Inr r \<longrightarrow> \<not> ok r"
    by blast+
  have n: "\<forall>res. ollamaAttempt url (fetch env calls (replaceV1Suffix url) ms) \<noteq> Inr (Some res)"
    using ollamaAttempt_not_ok [OF o1] by blast
  show "\<exists>e. fst (checkLocalServerAvailability env url tmo calls) =
           \<lparr>isAvailable = False, serverType = None, serverBaseUrl = None, models = None,
            error = Some e\<rparr> \<and>
         (case ?o2 of
            Inr r \<Rightarrow> e = ''No local model server found at the specified URL'' \<and> e \<noteq> ''''
          | Inl thrown \<Rightarrow> e = errorText env thrown)"
  proof (cases ?o2)
    case (Inl thrown)
    then have "modelsAttempt url ?o2 = Inl thrown"
      by (simp add: modelsAttempt_def)
    then show ?thesis
      unfolding check_second [OF n ms] using Inl by simp
  next
    case (Inr r)
    with o2 have "\<not> ok r" by blast
    with Inr have "modelsAttempt url ?o2 = Inr None"
      by (simp add: modelsAttempt_def)
    then show ?thesis
      unfolding check_second [OF n ms] using Inr by simp
  qed
qed

theorem checkLocalServerAvailability_negative_witness:
  "fetch \<lparr>fetch = (\<lambda>_ _ _. Inl (JsError ''fetch failed'')),
          typeErrorMessage = (\<lambda>_. ''TypeError'')\<rparr>
     [] (replaceV1Suffix ''http://localhost:11434/v1'') 2000 = Inl (JsError ''fetch failed'') \<and>
   fst (checkLocalServerAvailability
          \<lparr>fetch = (\<lambda>_ _ _. Inl (JsError ''fetch failed'')),
           typeErrorMessage = (\<lambda>_. ''TypeError'')\<rparr>
          ''http://localhost:11434/v1'' (Some 2000) []) =
     \<lparr>isAvailable = False, serverType = None, serverBaseUrl = None, models = None,
      error = Some ''fetch failed''\<rparr> \<and>
   fetch \<lparr>fetch = (\<lambda>_ _ _. Inr \<lparr>ok = False, json = Inl (JsError ''no body'')\<rparr>),
          typeErrorMessage = (\<lambda>_. ''TypeError'')\<rparr>
     [] (replaceV1Suffix ''http://localhost:11434/v1'') 2000 =
     Inr \<lparr>ok = False, json = Inl (JsError ''no body'')\<rparr> \<and>
   fst (checkLocalServerAvailability
          \<lparr>fetch = (\<lambda>_ _ _. Inr \<lparr>ok = False, json = Inl (JsError ''no body'')\<rparr>),
           typeErrorMessage = (\<lambda>_. ''TypeError'')\<rparr>
          ''http://localhost:11434/v1'' (Some 2000) []) =
     \<lparr>isAvailable = False, serverType = None, serverBaseUrl = None, models = None,
      error = Some ''No local model server found at the specified URL''\<rparr>"
  (is "?f1 \<and> ?r1 \<and> ?f2 \<and> ?r2")
proof -
  let ?env = "\<lparr>fetch = (\<lambda>_ _ _. Inl (JsError ''fetch failed'')),
          typeErrorMessage = (\<lambda>_. ''TypeError'')\<rparr>"
  let ?env2 = "\<lparr>fetch = (\<lambda>_ _ _. Inr \<lparr>ok = False, json = Inl (JsError ''no body'')\<rparr>),
          typeErrorMessage = (\<lambda>_. ''TypeError'')\<rparr>"
  have f: "fetch ?env cs u t = Inl (JsError ''fetch failed'')" for cs u t by simp
  have g: "fetch ?env2 cs u t = Inr \<lparr>ok = False, json = Inl (JsError ''no body'')\<rparr>" for cs u t
    by simp
  have "\<exists>e. fst (checkLocalServerAvailability ?env ''http://localhost:11434/v1'' (Some 2000) []) =
           \<lparr>isAvailable = False, serverType = None, serverBaseUrl = None, models = None,
            error = Some e\<rparr> \<and> e = ''fetch failed''"
    using checkLocalServerAvailability_negative
      [of ?env "''http://localhost:11434/v1''" "Some 2000" "[]" 2000]
    by (simp only: f) simp
  then have r1: ?r1 by blast
  have "\<exists>e. fst (checkLocalServerAvailability ?env2 ''http://localhost:11434/v1'' (Some 2000) []) =
           \<lparr>isAvailable = False, serverType = None, serverBaseUrl = None, models = None,
            error = Some e\<rparr> \<and> e = ''No local model server found at the specified URL''"
    using checkLocalServerAvailability_negative
      [of ?env2 "''http://localhost:11434/v1''" "Some 2000" "[]" 2000]
    by (simp only: g) simp
  then have r2: ?r2 by blast
  have f1: ?f1 by (rule f)
  have f2: ?f2 by (rule g)
  show ?thesis by (rule conjI [OF f1 conjI [OF r1 conjI [OF f2 r2]]])
qed

text \<open>
  C8, as the specification states it: whenever the \<open>/api/tags\<close> endpoint responds
  \<open>ok\<close> the server type is \<open>ollama\<close>. A server that answers \<open>/api/tags\<close> with
  status 200 and a body that is not JSON, and \<open>/v1/models\<close> with a model list, is
  classified by the second endpoint: the first \<open>catch\<close> swallows the failure of
  \<open>json()\<close>.
\<close>

theorem checkLocalServerAvailability_stated_counterexample:
  "fetch
     \<lparr>fetch = (\<lambda>_ u _.
        if endsWith u ''/api/tags''
        then Inr \<lparr>ok = True, json = Inl (JsError ''Unexpected token < in JSON at position 0'')\<rparr>
        else Inr \<lparr>ok = True,
                  json = Inr (JObject [(''data'', JArray [JObject [(''id'', JString ''Qwen/Qwen3-Coder-14B'')]])])\<rparr>),
      typeErrorMessage = (\<lambda>_. ''TypeError'')\<rparr>
     [] ''http://localhost:8000/api/tags'' 5000 =
     Inr \<lparr>ok = True, json = Inl (JsError ''Unexpected token < in JSON at position 0'')\<rparr> \<and>
   fst (checkLocalServerAvailability
     \<lparr>fetch = (\<lambda>_ u _.
        if endsWith u ''/api/tags''
        then Inr \<lparr>ok = True, json = Inl (JsError ''Unexpected token < in JSON at position 0'')\<rparr>
        else Inr \<lparr>ok = True,
                  json = Inr (JObject [(''data'', JArray [JObject [(''id'', JString ''Qwen/Qwen3-Coder-14B'')]])])\<rparr>),
      typeErrorMessage = (\<lambda>_. ''TypeError'')\<rparr>
     ''http://localhost:8000/v1'' None []) =
     \<lparr>isAvailable = True, serverType = Some vllm,
      serverBaseUrl = Some ''http://localhost:8000/v1'',
      models = Some (Listed [Some (JString ''Qwen/Qwen3-Coder-14B'')]), error = None\<rparr>"
  by code_simp

text \<open>
  C8, amended. When the \<open>/api/tags\<close> endpoint responds \<open>ok\<close> with a JSON body from
  which the model names can be read, the server type is \<open>ollama\<close>, whatever the port
  of the URL. When it does not, and the models endpoint responds \<open>ok\<close> with a JSON
  body from which the model ids can be read, the server type is \<open>vllm\<close> if the URL
  contains \<open>:8000\<close> and \<open>custom\<close> otherwise.
\<close>

theorem checkLocalServerAvailability_serverType:
  "ms = (case tmo of Some t \<Rightarrow> t | None \<Rightarrow> 5000) \<longrightarrow>
   ((\<exists>r body names. fetch env calls (replaceV1Suffix url) ms = Inr r \<and> ok r \<and>
        json r = Inr body \<and> ollamaModelNames body = Inr names) \<longrightarrow>
      isAvailable (fst (checkLocalServerAvailability env url tmo calls)) \<and>
      serverType (fst (checkLocalServerAvailability env url tmo calls)) = Some ollama) \<and>
   (\<not> (\<exists>r body names. fetch env calls (replaceV1Suffix url) ms = Inr r \<and> ok r \<and>
        json r = Inr body \<and> ollamaModelNames body = Inr names) \<and>
    (\<exists>r body ids.
        fetch env (calls @ [(replaceV1Suffix url, ms)])
          (if endsWith url ''/v1'' then url @ ''/models'' else url @ ''/v1/models'') ms = Inr r \<and>
        ok r \<and> json r = Inr body \<and> openaiModelIds body = Inr ids) \<longrightarrow>
      isAvailable (fst (checkLocalServerAvailability env url tmo calls)) \<and>
      serverType (fst (checkLocalServerAvailability env url tmo calls)) =
        Some (if str_includes url '':8000'' then vllm else custom))"
proof (intro impI conjI)
  assume ms: "ms = (case tmo of Some t \<Rightarrow> t | None \<Rightarrow> 5000)"
  assume "\<exists>r body names. fetch env calls (replaceV1Suffix url) ms = Inr r \<and> ok r \<and>
        json r = Inr body \<and> ollamaModelNames body = Inr names"
  then obtain res where r: "ollamaAttempt url (fetch env calls (replaceV1Suffix url) ms) = Inr (Some res)"
    using ollamaAttempt_iff [of url "fetch env calls (replaceV1Suffix url) ms"] by blast
  from check_first [OF r ms] ollamaAttempt_available [OF r]
  show "isAvailable (fst (checkLocalServerAvailability env url tmo calls))"
    and "serverType (fst (checkLocalServerAvailability env url tmo calls)) = Some ollama"
    by simp_all
next
  let ?o2 = "fetch env (calls @ [(replaceV1Suffix url, ms)])
          (if endsWith url ''/v1'' then url @ ''/models'' else url @ ''/v1/models'') ms"
  assume ms: "ms = (case tmo of Some t \<Rightarrow> t | None \<Rightarrow> 5000)"
  assume h: "\<not> (\<exists>r body names. fetch env calls (replaceV1Suffix url) ms = Inr r \<and> ok r \<and>
        json r = Inr body \<and> ollamaModelNames body = Inr names) \<and>
    (\<exists>r body ids. ?o2 = Inr r \<and> ok r \<and> json r = Inr body \<and> openaiModelIds body = Inr ids)"
  then have n: "\<forall>res. ollamaAttempt url (fetch env calls (replaceV1Suffix url) ms) \<noteq> Inr (Some res)"
    using ollamaAttempt_iff [of url "fetch env calls (replaceV1Suffix url) ms"] by blast
  from h obtain r body ids where "?o2 = Inr r" "ok r" "json r = Inr body" "openaiModelIds body = Inr ids"
    by blast
  then have m: "modelsAttempt url ?o2 =
     Inr (Some \<lparr>isAvailable = True,
                serverType = Some (if str_includes url '':8000'' then vllm else custom),
                serverBaseUrl = Some url, models = Some ids, error = None\<rparr>)"
    by (rule modelsAttempt_readable)
  show "isAvailable (fst (checkLocalServerAvailability env url tmo calls))"
    and "serverType (fst (checkLocalServerAvailability env url tmo calls)) =
        Some (if str_includes url '':8000'' then vllm else custom)"
    unfolding check_second [OF n ms] m by simp_all
qed

theorem checkLocalServerAvailability_serverType_witness:
  "fetch \<lparr>fetch = (\<lambda>_ _ _. Inr \<lparr>ok = True,
                    json = Inr (JObject [(''models'', JArray [JObject [(''name'', JString ''qwen3-coder:14b'')]])])\<rparr>),
          typeErrorMessage = (\<lambda>_. ''TypeError'')\<rparr>
     [] (replaceV1Suffix ''http://localhost:8000/v1'') 5000 =
     Inr \<lparr>ok = True,
          json = Inr (JObject [(''models'', JArray [JObject [(''name'', JString ''qwen3-coder:14b'')]])])\<rparr> \<and>
   ollamaModelNames (JObject [(''models'', JArray [JObject [(''name'', JString ''qwen3-coder:14b'')]])]) =
     Inr (Listed [Some (JString ''qwen3-coder:14b'')]) \<and>
   serverType (fst (checkLocalServerAvailability
     \<lparr>fetch = (\<lambda>_ _ _. Inr \<lparr>ok = True,
                    json = Inr (JObject [(''models'', JArray [JObject [(''name'', JString ''qwen3-coder:14b'')]])])\<rparr>),
      typeErrorMessage = (\<lambda>_. ''TypeError'')\<rparr>
     ''http://localhost:8000/v1'' None [])) = Some ollama \<and>
   fetch \<lparr>fetch = (\<lambda>_ u _.
             if endsWith u ''/api/tags'' then Inl (JsError ''fetch failed'')
             else Inr \<lparr>ok = True,
                       json = Inr (JObject [(''data'', JArray [JObject [(''id'', JString ''local-model'')]])])\<rparr>),
          typeErrorMessage = (\<lambda>_. ''TypeError'')\<rparr>
     [] (replaceV1Suffix ''http://localhost:1234/v1'') 5000 = Inl (JsError ''fetch failed'') \<and>
   fetch \<lparr>fetch = (\<lambda>_ u _.
             if endsWith u ''/api/tags'' then Inl (JsError ''fetch failed'')
             else Inr \<lparr>ok = True,
                       json = Inr (JObject [(''data'', JArray [JObject [(''id'', JString ''local-model'')]])])\<rparr>),
          typeErrorMessage = (\<lambda>_. ''TypeError'')\<rparr>
     ([] @ [(replaceV1Suffix ''http://localhost:1234/v1'', 5000)])
     (if endsWith ''http://localhost:1234/v1'' ''/v1'' then ''http://localhost:1234/v1'' @ ''/models''
      else ''http://localhost:1234/v1'' @ ''/v1/models'') 5000 =
     Inr \<lparr>ok = True,
          json = Inr (JObject [(''data'', JArray [JObject [(''id'', JString ''local-model'')]])])\<rparr> \<and>
   openaiModelIds (JObject [(''data'', JArray [JObject [(''id'', JString ''local-model'')]])]) =
     Inr (Listed [Some (JString ''local-model'')]) \<and>
   serverType (fst (checkLocalServerAvailability
     \<lparr>fetch = (\<lambda>_ u _.
         if endsWith u ''/api/tags'' then Inl (JsError ''fetch failed'')
         else Inr \<lparr>ok = True,
                   json = Inr (JObject [(''data'', JArray [JObject [(''id'', JString ''local-model'')]])])\<rparr>),
      typeErrorMessage = (\<lambda>_. ''TypeError'')\<rparr>
     ''http://localhost:1234/v1'' None [])) = Some custom"
  (is "?f1 \<and> ?b1 \<and> ?r1 \<and> ?f2 \<and> ?g2 \<and> ?b2 \<and> ?r2")
proof -
  let ?body = "JObject [(''models'', JArray [JObject [(''name'', JString ''qwen3-coder:14b'')]])]"
  let ?env = "\<lparr>fetch = (\<lambda>_ _ _. Inr \<lparr>ok = True, json = Inr ?body\<rparr>),
          typeErrorMessage = (\<lambda>_. ''TypeError'')\<rparr>"
  let ?body2 = "JObject [(''data'', JArray [JObject [(''id'', JString ''local-model'')]])]"
  let ?env2 = "\<lparr>fetch = (\<lambda>_ u _.
             if endsWith u ''/api/tags'' then Inl (JsError ''fetch failed'')
             else Inr \<lparr>ok = True, json = Inr ?body2\<rparr>),
          typeErrorMessage = (\<lambda>_. ''TypeError'')\<rparr>"
  have f1: ?f1 by simp
  have b1: ?b1 by code_simp
  have "\<exists>r body names. fetch ?env [] (replaceV1Suffix ''http://localhost:8000/v1'') 5000 = Inr r \<and>
      ok r \<and> json r = Inr body \<and> ollamaModelNames body = Inr names"
    using f1 b1 by (intro exI [of _ "\<lparr>ok = True, json = Inr ?body\<rparr>"] exI [of _ ?body]
        exI [of _ "Listed [Some (JString ''qwen3-coder:14b'')]"]) simp
  with checkLocalServerAvailability_serverType
      [of 5000 None ?env "[]" "''http://localhost:8000/v1''"]
  have r1: ?r1 by simp
  have f2: ?f2 by code_simp
  have g2: ?g2 by code_simp
  have b2: ?b2 by code_simp
  have port: "\<not> str_includes ''http://localhost:1234/v1'' '':8000''" by code_simp
  have n: "\<not> (\<exists>r body names.
      fetch ?env2 [] (replaceV1Suffix ''http://localhost:1234/v1'') 5000 = Inr r \<and>
      ok r \<and> json r = Inr body \<and> ollamaModelNames body = Inr names)"
    unfolding f2 by simp
  have y: "\<exists>r body ids.
      fetch ?env2 ([] @ [(replaceV1Suffix ''http://localhost:1234/v1'', 5000)])
        (if endsWith ''http://localhost:1234/v1'' ''/v1'' then ''http://localhost:1234/v1'' @ ''/models''
         else ''http://localhost:1234/v1'' @ ''/v1/models'') 5000 = Inr r \<and>
      ok r \<and> json r = Inr body \<and> openaiModelIds body = Inr ids"
    unfolding g2 using b2
    by (intro exI [of _ "\<lparr>ok = True, json = Inr ?body2\<rparr>"] exI [of _ ?body2]
        exI [of _ "Listed [Some (JString ''local-model'')]"]) simp
  have ms: "5000 = (case None :: nat option of Some t \<Rightarrow> t | None \<Rightarrow> 5000)" by simp
  note both = mp [OF checkLocalServerAvailability_serverType
      [of 5000 None ?env2 "[]" "''http://localhost:1234/v1''"] ms]
  note second = mp [OF conjunct2 [OF both] conjI [OF n y]]
  have "serverType (fst (checkLocalServerAvailability ?env2 ''http://localhost:1234/v1'' None [])) =
      Some (if str_includes ''http://localhost:1234/v1'' '':8000'' then vllm else custom)"
    by (rule conjunct2 [OF second])
  with port have r2: ?r2 by (simp only: if_False)
  show ?thesis
    by (rule conjI [OF f1 conjI [OF b1 conjI [OF r1 conjI [OF f2 conjI [OF g2 conjI [OF b2 r2]]]]]])
qed


section \<open>Auto-detection\<close>

lemma loop_first_available:
  "fst (autoDetectLoop env es calls) =
     map_option fst (find (\<lambda>p. isAvailable (fst p)) (probeEach env es calls))"
  by (induction es arbitrary: calls) (auto simp: Let_def split: prod.splits)

lemma loop_stops_at_first:
  "find (\<lambda>p. isAvailable (fst p)) (probeEach env es calls) = Some p \<Longrightarrow>
   autoDetectLoop env es calls = (Some (fst p), snd p)"
  by (induction es arbitrary: calls) (auto simp: Let_def split: prod.splits if_splits)

lemma loop_none_calls:
  "fst (autoDetectLoop env es calls) = None \<Longrightarrow>
   snd (autoDetectLoop env es calls) =
     calls @ concat (map (\<lambda>e. [(replaceV1Suffix e, 2000),
        (if endsWith e ''/v1'' then e @ ''/models'' else e @ ''/v1/models'', 2000)]) es)"
proof (induction es arbitrary: calls)
  case Nil
  then show ?case by simp
next
  case (Cons e es)
  obtain r calls' where c: "checkLocalServerAvailability env e (Some 2000) calls = (r, calls')"
    by (cases "checkLocalServerAvailability env e (Some 2000) calls")
  with Cons.prems have n: "\<not> isAvailable r"
    by (auto split: if_splits)
  with c have calls': "calls' = calls @ [(replaceV1Suffix e, 2000),
        (if endsWith e ''/v1'' then e @ ''/models'' else e @ ''/v1/models'', 2000)]"
    using check_unavailable_calls [of env e "Some 2000" calls 2000] by simp
  from c n Cons.prems have "fst (autoDetectLoop env es calls') = None" by simp
  from Cons.IH [OF this] c n calls' show ?case by simp
qed

lemma loop_calls_prefix:
  "\<exists>probes. snd (autoDetectLoop env es calls) = calls @ probes \<and>
     prefix probes (concat (map (\<lambda>e. [(replaceV1Suffix e, 2000),
        (if endsWith e ''/v1'' then e @ ''/models'' else e @ ''/v1/models'', 2000)]) es))"
proof (induction es arbitrary: calls)
  case Nil
  then show ?case by simp
next
  case (Cons e es)
  let ?two = "[(replaceV1Suffix e, 2000),
        (if endsWith e ''/v1'' then e @ ''/models'' else e @ ''/v1/models'', 2000)]"
  let ?rest = "concat (map (\<lambda>e. [(replaceV1Suffix e, 2000),
        (if endsWith e ''/v1'' then e @ ''/models'' else e @ ''/v1/models'', 2000)]) es)"
  obtain r calls' where c: "checkLocalServerAvailability env e (Some 2000) calls = (r, calls')"
    by (cases "checkLocalServerAvailability env e (Some 2000) calls")
  show ?case
  proof (cases "isAvailable r")
    case True
    from check_calls_prefix [of 2000 "Some 2000" env e calls] c
    obtain probes where "calls' = calls @ probes" "prefix probes ?two" by auto
    then have "calls' = calls @ probes \<and> prefix probes (?two @ ?rest)"
      using prefix_order.trans prefix_prefix by blast
    with c True show ?thesis by simp
  next
    case False
    with c have calls': "calls' = calls @ ?two"
      using check_unavailable_calls [of env e "Some 2000" calls 2000] by simp
    from Cons.IH [of calls'] obtain probes where
      p: "snd (autoDetectLoop env es calls') = calls' @ probes" "prefix probes ?rest"
      by blast
    then have "snd (autoDetectLoop env es calls') = calls @ (?two @ probes) \<and>
        prefix (?two @ probes) (?two @ ?rest)"
      using calls' by simp
    with c False show ?thesis
      by (simp del: append.simps)
  qed
qed

lemma expected_probes:
  "concat (map (\<lambda>e. [(replaceV1Suffix e, 2000 :: nat),
        (if endsWith e ''/v1'' then e @ ''/models'' else e @ ''/v1/models'', 2000)])
     commonEndpoints) =
   [(''http://localhost:11434/api/tags'', 2000 :: nat), (''http://localhost:11434/v1/models'', 2000),
    (''http://127.0.0.1:11434/api/tags'', 2000), (''http://127.0.0.1:11434/v1/models'', 2000),
    (''http://localhost:8000/api/tags'', 2000), (''http://localhost:8000/v1/models'', 2000),
    (''http://127.0.0.1:8000/api/tags'', 2000), (''http://127.0.0.1:8000/v1/models'', 2000)]"
  by code_simp

text \<open>
  C6. Auto-detection knows four endpoints, the two loopback forms of port 11434 before
  the two of port 8000. Its calls to \<open>fetch\<close> are an initial part of the sequence
  that probes each endpoint in that order, first the tags URL and then the models URL,
  every call with a timeout of 2000 milliseconds. Its result is the first available
  result of probing the endpoints in turn, with the log as that probe left it (nothing
  is fetched after it). When no probe is available the result is unavailable, all
  eight calls were made, and the error text names ports 11434 and 8000.
\<close>

theorem autoDetectLocalServer_sequential:
  "commonEndpoints =
     [''http://localhost:11434/v1'', ''http://127.0.0.1:11434/v1'',
      ''http://localhost:8000/v1'', ''http://127.0.0.1:8000/v1''] \<and>
   (\<exists>probes. snd (autoDetectLocalServer env calls) = calls @ probes \<and>
      prefix probes
        [(''http://localhost:11434/api/tags'', 2000), (''http://localhost:11434/v1/models'', 2000),
         (''http://127.0.0.1:11434/api/tags'', 2000), (''http://127.0.0.1:11434/v1/models'', 2000),
         (''http://localhost:8000/api/tags'', 2000), (''http://localhost:8000/v1/models'', 2000),
         (''http://127.0.0.1:8000/api/tags'', 2000), (''http://127.0.0.1:8000/v1/models'', 2000)]) \<and>
   (\<forall>p. find (\<lambda>p. isAvailable (fst p)) (probeEach env commonEndpoints calls) = Some p \<longrightarrow>
      autoDetectLocalServer env calls = p) \<and>
   (find (\<lambda>p. isAvailable (fst p)) (probeEach env commonEndpoints calls) = None \<longrightarrow>
      autoDetectLocalServer env calls =
        (\<lparr>isAvailable = False, serverType = None, serverBaseUrl = None, models = None,
          error = Some ''No local model server detected on common ports (11434, 8000)''\<rparr>,
         calls @
         [(''http://localhost:11434/api/tags'', 2000), (''http://localhost:11434/v1/models'', 2000),
          (''http://127.0.0.1:11434/api/tags'', 2000), (''http://127.0.0.1:11434/v1/models'', 2000),
          (''http://localhost:8000/api/tags'', 2000), (''http://localhost:8000/v1/models'', 2000),
          (''http://127.0.0.1:8000/api/tags'', 2000), (''http://127.0.0.1:8000/v1/models'', 2000)])) \<and>
   str_includes ''No local model server detected on common ports (11434, 8000)'' ''11434'' \<and>
   str_includes ''No local model server detected on common ports (11434, 8000)'' ''8000''"
proof -
  let ?expected =
    "[(''http://localhost:11434/api/tags'', 2000 :: nat), (''http://localhost:11434/v1/models'', 2000),
      (''http://127.0.0.1:11434/api/tags'', 2000), (''http://127.0.0.1:11434/v1/models'', 2000),
      (''http://localhost:8000/api/tags'', 2000), (''http://localhost:8000/v1/models'', 2000),
      (''http://127.0.0.1:8000/api/tags'', 2000), (''http://127.0.0.1:8000/v1/models'', 2000)]"
  let ?found = "find (\<lambda>p. isAvailable (fst p)) (probeEach env commonEndpoints calls)"
  have snd_eq: "snd (autoDetectLocalServer env calls) = snd (autoDetectLoop env commonEndpoints calls)"
    by (simp add: autoDetectLocalServer_def split: prod.splits option.splits)
  have a: "commonEndpoints =
     [''http://localhost:11434/v1'', ''http://127.0.0.1:11434/v1'',
      ''http://localhost:8000/v1'', ''http://127.0.0.1:8000/v1'']"
    by (simp add: commonEndpoints_def)
  have b: "\<exists>probes. snd (autoDetectLocalServer env calls) = calls @ probes \<and> prefix probes ?expected"
    using loop_calls_prefix [of env commonEndpoints calls]
    unfolding snd_eq expected_probes .
  have c: "\<forall>p. ?found = Some p \<longrightarrow> autoDetectLocalServer env calls = p"
  proof (intro allI impI)
    fix p assume "?found = Some p"
    from loop_stops_at_first [OF this] show "autoDetectLocalServer env calls = p"
      by (simp add: autoDetectLocalServer_def)
  qed
  have d: "autoDetectLocalServer env calls =
        (\<lparr>isAvailable = False, serverType = None, serverBaseUrl = None, models = None,
          error = Some ''No local model server detected on common ports (11434, 8000)''\<rparr>,
         calls @ ?expected)" if none: "?found = None"
  proof -
    from none have n: "fst (autoDetectLoop env commonEndpoints calls) = None"
      by (simp add: loop_first_available)
    from loop_none_calls [OF n]
    have "snd (autoDetectLoop env commonEndpoints calls) = calls @ ?expected"
      unfolding expected_probes .
    with n have "autoDetectLoop env commonEndpoints calls = (None, calls @ ?expected)"
      by (metis prod.collapse)
    then show ?thesis
      by (simp add: autoDetectLocalServer_def)
  qed
  have e: "str_includes ''No local model server detected on common ports (11434, 8000)'' ''11434''"
    by code_simp
  have f: "str_includes ''No local model server detected on common ports (11434, 8000)'' ''8000''"
    by code_simp
  from a b c d e f show ?thesis by blast
qed

theorem autoDetectLocalServer_sequential_witness:
  "find (\<lambda>p. isAvailable (fst p))
     (probeEach \<lparr>fetch = (\<lambda>_ _ _. Inl (JsError ''fetch failed'')),
                 typeErrorMessage = (\<lambda>_. ''TypeError'')\<rparr> commonEndpoints []) = None \<and>
   autoDetectLocalServer
     \<lparr>fetch = (\<lambda>_ _ _. Inl (JsError ''fetch failed'')),
      typeErrorMessage = (\<lambda>_. ''TypeError'')\<rparr> [] =
     (\<lparr>isAvailable = False, serverType = None, serverBaseUrl = None, models = None,
       error = Some ''No local model server detected on common ports (11434, 8000)''\<rparr>,
      [(''http://localhost:11434/api/tags'', 2000), (''http://localhost:11434/v1/models'', 2000),
       (''http://127.0.0.1:11434/api/tags'', 2000), (''http://127.0.0.1:11434/v1/models'', 2000),
       (''http://localhost:8000/api/tags'', 2000), (''http://localhost:8000/v1/models'', 2000),
       (''http://127.0.0.1:8000/api/tags'', 2000), (''http://127.0.0.1:8000/v1/models'', 2000)]) \<and>
   find (\<lambda>p. isAvailable (fst p))
     (probeEach
        \<lparr>fetch = (\<lambda>_ u _. if str_includes u '':8000'' then Inr \<lparr>ok = True, json = Inr (JObject [])\<rparr>
                            else Inl (JsError ''fetch failed'')),
         typeErrorMessage = (\<lambda>_. ''TypeError'')\<rparr> commonEndpoints []) =
     Some (\<lparr>isAvailable = True, serverType = Some ollama,
            serverBaseUrl = Some ''http://localhost:8000/v1'', models = Some (Listed []),
            error = None\<rparr>,
           [(''http://localhost:11434/api/tags'', 2000), (''http://localhost:11434/v1/models'', 2000),
            (''http://127.0.0.1:11434/api/tags'', 2000), (''http://127.0.0.1:11434/v1/models'', 2000),
            (''http://localhost:8000/api/tags'', 2000)]) \<and>
   autoDetectLocalServer
     \<lparr>fetch = (\<lambda>_ u _. if str_includes u '':8000'' then Inr \<lparr>ok = True, json = Inr (JObject [])\<rparr>
                         else Inl (JsError ''fetch failed'')),
      typeErrorMessage = (\<lambda>_. ''TypeError'')\<rparr> [] =
     (\<lparr>isAvailable = True, serverType = Some ollama,
       serverBaseUrl = Some ''http://localhost:8000/v1'', models = Some (Listed []),
       error = None\<rparr>,
      [(''http://localhost:11434/api/tags'', 2000), (''http://localhost:11434/v1/models'', 2000),
       (''http://127.0.0.1:11434/api/tags'', 2000), (''http://127.0.0.1:11434/v1/models'', 2000),
       (''http://localhost:8000/api/tags'', 2000)])"
  (is "?h1 \<and> ?r1 \<and> ?h2 \<and> ?r2")
proof -
  have h1: ?h1 by code_simp
  have h2: ?h2 by code_simp
  have r1: ?r1
    using h1 autoDetectLocalServer_sequential
      [of "\<lparr>fetch = (\<lambda>_ _ _. Inl (JsError ''fetch failed'')),
           typeErrorMessage = (\<lambda>_. ''TypeError'')\<rparr>" "[]"]
    by simp
  have r2: ?r2
    using h2 autoDetectLocalServer_sequential
      [of "\<lparr>fetch = (\<lambda>_ u _. if str_includes u '':8000'' then Inr \<lparr>ok = True, json = Inr (JObject [])\<rparr>
                         else Inl (JsError ''fetch failed'')),
      typeErrorMessage = (\<lambda>_. ''TypeError'')\<rparr>" "[]"]
    by simp
  show ?thesis by (rule conjI [OF h1 conjI [OF r1 conjI [OF h2 r2]]])
qed

end
